theory Spec2Isabelle
  imports Complex_Main
begin

section \<open>Numbers, vectors and boxes\<close>

text \<open>
  The viewer component (\<^verbatim>\<open>Viewer.tsx\<close>) works on JavaScript numbers. Coordinates,
  extents and camera parameters are modelled as reals, without rounding and without the
  values \<^verbatim>\<open>Infinity\<close> and \<^verbatim>\<open>NaN\<close> (which the component could only meet through a
  viewport of height 0); quantities that the three.js library reports as array lengths
  (\<^verbatim>\<open>position.count\<close>, \<^verbatim>\<open>index.count\<close>) are naturals. The face count, whose exact
  value is at stake, is computed in double precision, see below.
\<close>

datatype Vector3 = Vector3 (vx: real) (vy: real) (vz: real)

text \<open>\<^verbatim>\<open>v.sub(c)\<close>: componentwise subtraction.\<close>

definition sub :: "Vector3 \<Rightarrow> Vector3 \<Rightarrow> Vector3" where
  "sub v c = Vector3 (vx v - vx c) (vy v - vy c) (vz v - vz c)"

datatype Box3 = Box3 (boxMin: Vector3) (boxMax: Vector3)

text \<open>
  \<^verbatim>\<open>Box3.isEmpty\<close>, \<^verbatim>\<open>Box3.getCenter\<close> and \<^verbatim>\<open>Box3.getSize\<close> of the three.js library,
  which the component calls on the box of the loaded object: an empty box has centre and
  size zero.
\<close>

definition isEmpty :: "Box3 \<Rightarrow> bool" where
  "isEmpty box =
     (vx (boxMax box) < vx (boxMin box) \<or> vy (boxMax box) < vy (boxMin box)
      \<or> vz (boxMax box) < vz (boxMin box))"

definition getCenter :: "Box3 \<Rightarrow> Vector3" where
  "getCenter box =
     (if isEmpty box then Vector3 0 0 0
      else Vector3 ((vx (boxMin box) + vx (boxMax box)) * (1 / 2))
                   ((vy (boxMin box) + vy (boxMax box)) * (1 / 2))
                   ((vz (boxMin box) + vz (boxMax box)) * (1 / 2)))"

definition getSize :: "Box3 \<Rightarrow> Vector3" where
  "getSize box = (if isEmpty box then Vector3 0 0 0 else sub (boxMax box) (boxMin box))"

section \<open>The scene graph\<close>

text \<open>
  Materials are objects compared by reference (the component collects them in a
  JavaScript \<^verbatim>\<open>Set\<close>). A reference is either to a material made by the loaders, or to
  the \<open>n\<close>-th material object the component itself has constructed with \<^verbatim>\<open>new\<close>.
\<close>

datatype Material = LoaderMaterial nat | ViewerMaterial nat

datatype Texture = Texture nat

text \<open>The constructor arguments of the materials the component creates.\<close>

datatype MaterialObject =
    MeshPhongMaterial (mapTexture: "Texture option") (colorHex: "nat option")
      (shininess: real) (transparent: bool) (opacity: real)
  | MeshBasicMaterial nat bool

text \<open>
  A geometry is a \<^verbatim>\<open>BufferGeometry\<close> with an optional position attribute and an optional
  index (only their \<^verbatim>\<open>count\<close> is read), or something that fails the
  \<^verbatim>\<open>instanceof THREE.BufferGeometry\<close> test.
\<close>

datatype Geometry = BufferGeometry "nat option" "nat option" | OtherGeometry

text \<open>A node passes \<^verbatim>\<open>instanceof THREE.Mesh\<close> or not (groups, lines, points).\<close>

datatype NodeKind = Mesh Geometry "Material option" | NotMesh

datatype Object3D = Object3D (kind: NodeKind) (position: Vector3) (children: "Object3D list")

text \<open>\<^verbatim>\<open>object.traverse(callback)\<close> visits the node, then each child's subtree in order.\<close>

fun traverse :: "Object3D \<Rightarrow> Object3D list" where
  "traverse (Object3D k p cs) = Object3D k p cs # concat (map traverse cs)"

subsection \<open>Mesh statistics\<close>

text \<open>The body of the callback of \<^verbatim>\<open>countVertices\<close>, acting on the local \<^verbatim>\<open>count\<close>.\<close>

definition countVerticesStep :: "Object3D \<Rightarrow> nat \<Rightarrow> nat" where
  "countVerticesStep child count =
     (case kind child of
        Mesh geometry m \<Rightarrow>
          (case geometry of
             BufferGeometry positionAttr indexAttr \<Rightarrow>
               (case positionAttr of Some n \<Rightarrow> count + n | None \<Rightarrow> count)
           | OtherGeometry \<Rightarrow> count)
      | NotMesh \<Rightarrow> count)"

definition countVertices :: "Object3D \<Rightarrow> nat" where
  "countVertices object = fold countVerticesStep (traverse object) 0"

subsection \<open>Double-precision arithmetic\<close>

text \<open>
  A JavaScript number is an IEEE 754 binary64 value: a finite one is \<open>m * 2 ^ q\<close> for
  integers \<open>m\<close> and \<open>q\<close> with \<open>\<bar>m\<bar> < 2 ^ 53\<close> and \<open>- 1074 \<le> q\<close>. An arithmetic
  operation returns the exact result rounded to the nearest such value, a tie going to
  the even \<open>m\<close>. \<open>exponentOf x\<close> is the binary exponent of \<open>x\<close>, not below that of the
  smallest normal number, so that \<open>2 powi (exponentOf x - 52)\<close> is the spacing of the
  values around \<open>x\<close>. Results beyond the largest finite value (about \<open>2 ^ 1024\<close>), which
  JavaScript turns into \<^verbatim>\<open>Infinity\<close>, are outside the model.
\<close>

definition exponentOf :: "real \<Rightarrow> int" where
  "exponentOf x = max \<lfloor>log 2 \<bar>x\<bar>\<rfloor> (- 1022)"

definition roundHalfEven :: "real \<Rightarrow> int" where
  "roundHalfEven y =
     (if y - of_int \<lfloor>y\<rfloor> < 1 / 2 then \<lfloor>y\<rfloor>
      else if 1 / 2 < y - of_int \<lfloor>y\<rfloor> then \<lfloor>y\<rfloor> + 1
      else if even \<lfloor>y\<rfloor> then \<lfloor>y\<rfloor>
      else \<lfloor>y\<rfloor> + 1)"

definition roundDouble :: "real \<Rightarrow> real" where
  "roundDouble x =
     (if x = 0 then 0
      else of_int (roundHalfEven (x / 2 powi (exponentOf x - 52))) * 2 powi (exponentOf x - 52))"

text \<open>\<^verbatim>\<open>a + b\<close> and \<^verbatim>\<open>a / b\<close> on JavaScript numbers.\<close>

definition addDouble :: "real \<Rightarrow> real \<Rightarrow> real" where
  "addDouble a b = roundDouble (a + b)"

definition divDouble :: "real \<Rightarrow> real \<Rightarrow> real" where
  "divDouble a b = roundDouble (a / b)"

text \<open>
  The body of the callback of \<^verbatim>\<open>countFaces\<close>. The source writes \<^verbatim>\<open>count += index.count / 3\<close>
  and \<^verbatim>\<open>count += position.count / 3\<close>: a division and an addition of JavaScript
  numbers, with no step that truncates.
\<close>

definition countFacesStep :: "Object3D \<Rightarrow> real \<Rightarrow> real" where
  "countFacesStep child count =
     (case kind child of
        Mesh geometry m \<Rightarrow>
          (case geometry of
             BufferGeometry positionAttr indexAttr \<Rightarrow>
               (case indexAttr of
                  Some i \<Rightarrow> addDouble count (divDouble (real i) 3)
                | None \<Rightarrow>
                    (case positionAttr of
                       Some n \<Rightarrow> addDouble count (divDouble (real n) 3)
                     | None \<Rightarrow> count))
           | OtherGeometry \<Rightarrow> count)
      | NotMesh \<Rightarrow> count)"

definition countFaces :: "Object3D \<Rightarrow> real" where
  "countFaces object = fold countFacesStep (traverse object) 0"

subsection \<open>The set of materials\<close>

text \<open>A JavaScript \<^verbatim>\<open>Set\<close>: insertion-ordered, no duplicates; \<^verbatim>\<open>size\<close> is its length.\<close>

definition setAdd :: "'a \<Rightarrow> 'a list \<Rightarrow> 'a list" where
  "setAdd v s = (if v \<in> set s then s else s @ [v])"

definition materialCountStep :: "Object3D \<Rightarrow> Material list \<Rightarrow> Material list" where
  "materialCountStep child materialCount =
     (case kind child of
        Mesh geometry m \<Rightarrow>
          (case m of Some material \<Rightarrow> setAdd material materialCount | None \<Rightarrow> materialCount)
      | NotMesh \<Rightarrow> materialCount)"

definition collectMaterials :: "Object3D \<Rightarrow> Material list" where
  "collectMaterials object = fold materialCountStep (traverse object) []"

subsection \<open>Assigning a new material to every mesh\<close>

text \<open>
  \<^verbatim>\<open>object.traverse(child => { if (child instanceof THREE.Mesh) child.material = new
  THREE.MeshPhongMaterial({...}) })\<close>: every mesh visited gets a material object of its
  own, allocated at the end of the heap of materials created so far.
\<close>

fun assignMaterial :: "MaterialObject \<Rightarrow> Object3D \<Rightarrow> MaterialObject list
      \<Rightarrow> Object3D \<times> MaterialObject list"
  and assignMaterials :: "MaterialObject \<Rightarrow> Object3D list \<Rightarrow> MaterialObject list
      \<Rightarrow> Object3D list \<times> MaterialObject list"
where
  "assignMaterial mat (Object3D k p cs) heap =
     (case k of
        Mesh geometry m \<Rightarrow>
          (case assignMaterials mat cs (heap @ [mat]) of
             (cs', heap') \<Rightarrow>
               (Object3D (Mesh geometry (Some (ViewerMaterial (length heap)))) p cs', heap'))
      | NotMesh \<Rightarrow>
          (case assignMaterials mat cs heap of
             (cs', heap') \<Rightarrow> (Object3D NotMesh p cs', heap')))"
| "assignMaterials mat [] heap = ([], heap)"
| "assignMaterials mat (c # cs) heap =
     (case assignMaterial mat c heap of
        (c', heap') \<Rightarrow>
          (case assignMaterials mat cs heap' of
             (cs', heap'') \<Rightarrow> (c' # cs', heap'')))"

section \<open>The state the component works on\<close>

record Dimensions =
  width :: real
  height :: real
  depth :: real

record ModelMetadata =
  vertices :: nat
  faces :: real
  materials :: nat
  dimensions :: Dimensions

text \<open>
  The perspective camera. \<open>lookAtTarget\<close> is the point last passed to \<^verbatim>\<open>camera.lookAt\<close>
  by the component; \<open>projection\<close> holds the parameters the projection matrix was last
  computed from (\<^verbatim>\<open>updateProjectionMatrix\<close>, also run by the constructor).
\<close>

record Camera =
  fov :: real
  aspect :: real
  near :: real
  far :: real
  camPosition :: Vector3
  lookAtTarget :: "Vector3 option"
  projection :: "real \<times> real \<times> real \<times> real"

definition updateProjectionMatrix :: "Camera \<Rightarrow> Camera" where
  "updateProjectionMatrix c = c\<lparr>projection := (fov c, aspect c, near c, far c)\<rparr>"

definition PerspectiveCamera :: "real \<Rightarrow> real \<Rightarrow> real \<Rightarrow> real \<Rightarrow> Camera" where
  "PerspectiveCamera f a n fr =
     updateProjectionMatrix
       \<lparr>fov = f, aspect = a, near = n, far = fr, camPosition = Vector3 0 0 0,
        lookAtTarget = None, projection = (f, a, n, fr)\<rparr>"

text \<open>What \<^verbatim>\<open>scene.add\<close> receives. Colours are the source's hexadecimal literals.\<close>

datatype SceneItem =
    GridHelper nat nat
  | AxesHelper nat
  | AmbientLight nat real
  | DirectionalLight nat real Vector3
  | PointLight nat real real Vector3
  | BoxMesh Vector3 Material Vector3
  | Model Object3D
  | Box3Helper Box3 nat

text \<open>
  The React state of the component (\<open>modelMetadata\<close>, \<open>loading\<close>, \<open>error\<close>), the scene
  and camera its closures share, the material objects it has created, and the files it
  has asked the loaders for. The debug log (\<^verbatim>\<open>addDebug\<close>) only collects messages and is
  left out.
\<close>

record World =
  modelMetadata :: "ModelMetadata option"
  loading :: bool
  error :: "string option"
  background :: "nat option"
  scene :: "SceneItem list"
  camera :: "Camera option"
  materialHeap :: "MaterialObject list"
  requested :: "string list"

definition initialWorld :: World where
  "initialWorld =
     \<lparr>modelMetadata = None, loading = True, error = None, background = None, scene = [],
      camera = None, materialHeap = [], requested = []\<rparr>"

text \<open>
  The three states the host sees, read off the three state variables as the component
  renders them: the error panel when \<open>error\<close> is set, the loading indicator while
  \<open>loading\<close>, the metadata panel otherwise.
\<close>

datatype LoadState = Loading | Ready ModelMetadata | Failed string

definition loadState :: "World \<Rightarrow> LoadState" where
  "loadState w =
     (case error w of
        Some message \<Rightarrow> Failed message
      | None \<Rightarrow>
          (if loading w then Loading
           else (case modelMetadata w of Some md \<Rightarrow> Ready md | None \<Rightarrow> Loading)))"

section \<open>The environment of one mount\<close>

text \<open>
  A loader calls \<^verbatim>\<open>onLoad\<close> with the result, or \<^verbatim>\<open>onError\<close>, or (a stalled fetch)
  neither.
\<close>

datatype 'a Outcome = OnLoad 'a | OnError | NoCallback

text \<open>The parsed material library: the names of the materials it defines.\<close>

datatype MaterialCreator = MaterialCreator "string list"

text \<open>
  \<open>objResult\<close> is asked with the materials given to \<^verbatim>\<open>objLoader.setMaterials\<close>, if any.
  \<open>setFromObject\<close> is \<^verbatim>\<open>new THREE.Box3().setFromObject\<close>, the library's bounding box of
  a node. \<open>initThrows\<close> says that the renderer cannot be created, the exception that
  the \<^verbatim>\<open>try\<close> block of \<^verbatim>\<open>init\<close> catches.
\<close>

record Env =
  mountCurrent :: bool
  initThrows :: bool
  innerWidth :: real
  innerHeight :: real
  textureResult :: "Texture Outcome"
  mtlResult :: "MaterialCreator Outcome"
  objResult :: "MaterialCreator option \<Rightarrow> Object3D Outcome"
  setFromObject :: "Object3D \<Rightarrow> Box3"

section \<open>The load pipeline\<close>

text \<open>\<^verbatim>\<open>loader.load(url, ...)\<close> issues the fetch of \<open>url\<close>.\<close>

definition load :: "string \<Rightarrow> World \<Rightarrow> World" where
  "load url w = w\<lparr>requested := requested w @ [url]\<rparr>"

text \<open>The camera distance of the block \<^verbatim>\<open>// Adjust camera to fit the object\<close>.\<close>

definition cameraZ :: "real \<Rightarrow> real \<Rightarrow> real" where
  "cameraZ maxDim cameraFov =
     (let fov = cameraFov * (pi / 180) in \<bar>maxDim / sin (fov / 2)\<bar> * 2)"

definition adjustCamera :: "Vector3 \<Rightarrow> Camera \<Rightarrow> Camera" where
  "adjustCamera extent c =
     (let maxDim = max (max (vx extent) (vy extent)) (vz extent)
      in updateProjectionMatrix
           (c\<lparr>camPosition := Vector3 0 (maxDim / 2) (cameraZ maxDim (fov c)),
              lookAtTarget := Some (Vector3 0 0 0),
              near := 1 / 10,
              far := 1000\<rparr>))"

text \<open>\<^verbatim>\<open>object.position.sub(center)\<close>.\<close>

definition centerObject :: "Vector3 \<Rightarrow> Object3D \<Rightarrow> Object3D" where
  "centerObject center object =
     Object3D (kind object) (sub (position object) center) (children object)"

subsection \<open>The texture has loaded\<close>

text \<open>Success callback of the geometry load, with materials and texture.\<close>

definition objLoadedMain :: "Env \<Rightarrow> Texture \<Rightarrow> Object3D \<Rightarrow> World \<Rightarrow> World" where
  "objLoadedMain env texture object w =
     (let box = setFromObject env object;
          center = getCenter box;
          size = getSize box
      in case assignMaterial (MeshPhongMaterial (Some texture) None 50 False 1)
                (centerObject center object) (materialHeap w) of
           (object', heap') \<Rightarrow>
             w\<lparr>scene := scene w @
                  [Model object', Box3Helper box 16776960,
                   BoxMesh size (ViewerMaterial (length heap')) (position object')],
               materialHeap := heap' @ [MeshBasicMaterial 16711935 True],
               modelMetadata :=
                 Some \<lparr>vertices = countVertices object',
                       faces = countFaces object',
                       materials = length (collectMaterials object'),
                       dimensions = \<lparr>width = vx size, height = vy size, depth = vz size\<rparr>\<rparr>,
               camera := map_option (adjustCamera size) (camera w),
               loading := False\<rparr>)"

definition objErrorMain :: "World \<Rightarrow> World" where
  "objErrorMain w =
     w\<lparr>error := Some ''Failed to load 3D model. Please check if model files exist in the correct location.'',
       loading := False\<rparr>"

definition mtlLoadedMain :: "Env \<Rightarrow> Texture \<Rightarrow> MaterialCreator \<Rightarrow> World \<Rightarrow> World" where
  "mtlLoadedMain env texture materials' w =
     (case objResult env (Some materials') of
        OnLoad object \<Rightarrow> objLoadedMain env texture object (load ''capsule.obj'' w)
      | OnError \<Rightarrow> objErrorMain (load ''capsule.obj'' w)
      | NoCallback \<Rightarrow> load ''capsule.obj'' w)"

text \<open>Success callback of the geometry load of the fallback (no materials).\<close>

definition objLoadedFallback :: "Env \<Rightarrow> Texture \<Rightarrow> Object3D \<Rightarrow> World \<Rightarrow> World" where
  "objLoadedFallback env texture object w =
     (let box = setFromObject env object;
          center = getCenter box;
          size = getSize box
      in case assignMaterial (MeshPhongMaterial (Some texture) None 50 False 1)
                (centerObject center object) (materialHeap w) of
           (object', heap') \<Rightarrow>
             w\<lparr>scene := scene w @ [Model object'],
               materialHeap := heap',
               modelMetadata :=
                 Some \<lparr>vertices = countVertices object',
                       faces = countFaces object',
                       materials = 1,
                       dimensions = \<lparr>width = vx size, height = vy size, depth = vz size\<rparr>\<rparr>,
               loading := False\<rparr>)"

definition objErrorFallback :: "World \<Rightarrow> World" where
  "objErrorFallback w =
     w\<lparr>error := Some ''Failed to load model with or without materials.'', loading := False\<rparr>"

definition mtlErrorMain :: "Env \<Rightarrow> Texture \<Rightarrow> World \<Rightarrow> World" where
  "mtlErrorMain env texture w =
     (case objResult env None of
        OnLoad object \<Rightarrow> objLoadedFallback env texture object (load ''capsule.obj'' w)
      | OnError \<Rightarrow> objErrorFallback (load ''capsule.obj'' w)
      | NoCallback \<Rightarrow> load ''capsule.obj'' w)"

definition textureLoaded :: "Env \<Rightarrow> Texture \<Rightarrow> World \<Rightarrow> World" where
  "textureLoaded env texture w =
     (case mtlResult env of
        OnLoad materials' \<Rightarrow> mtlLoadedMain env texture materials' (load ''capsule.mtl'' w)
      | OnError \<Rightarrow> mtlErrorMain env texture (load ''capsule.mtl'' w)
      | NoCallback \<Rightarrow> load ''capsule.mtl'' w)"

subsection \<open>The texture has failed\<close>

definition objLoadedNoTexture :: "Env \<Rightarrow> Object3D \<Rightarrow> World \<Rightarrow> World" where
  "objLoadedNoTexture env object w =
     (let box = setFromObject env object;
          center = getCenter box;
          size = getSize box;
          object' = centerObject center object
      in w\<lparr>scene := scene w @ [Model object'],
           modelMetadata :=
             Some \<lparr>vertices = countVertices object',
                   faces = countFaces object',
                   materials = length (collectMaterials object'),
                   dimensions = \<lparr>width = vx size, height = vy size, depth = vz size\<rparr>\<rparr>,
           loading := False\<rparr>)"

definition objErrorNoTexture :: "World \<Rightarrow> World" where
  "objErrorNoTexture w =
     w\<lparr>error := Some ''Failed to load 3D model without texture.'', loading := False\<rparr>"

definition mtlLoadedNoTexture :: "Env \<Rightarrow> MaterialCreator \<Rightarrow> World \<Rightarrow> World" where
  "mtlLoadedNoTexture env materials' w =
     (case objResult env (Some materials') of
        OnLoad object \<Rightarrow> objLoadedNoTexture env object (load ''capsule.obj'' w)
      | OnError \<Rightarrow> objErrorNoTexture (load ''capsule.obj'' w)
      | NoCallback \<Rightarrow> load ''capsule.obj'' w)"

definition mtlErrorNoTexture :: "World \<Rightarrow> World" where
  "mtlErrorNoTexture w =
     w\<lparr>error := Some ''Failed to load materials and texture.'', loading := False\<rparr>"

definition textureError :: "Env \<Rightarrow> World \<Rightarrow> World" where
  "textureError env w =
     (case mtlResult env of
        OnLoad materials' \<Rightarrow> mtlLoadedNoTexture env materials' (load ''capsule.mtl'' w)
      | OnError \<Rightarrow> mtlErrorNoTexture (load ''capsule.mtl'' w)
      | NoCallback \<Rightarrow> load ''capsule.mtl'' w)"

subsection \<open>Initialisation\<close>

text \<open>Scene, helpers, lights and camera, up to the creation of the renderer.\<close>

definition setupScene :: "Env \<Rightarrow> World \<Rightarrow> World" where
  "setupScene env w =
     w\<lparr>background := Some 1184274,
       scene := scene w @
         [GridHelper 10 10, AxesHelper 5, AmbientLight 16777215 (7 / 10),
          DirectionalLight 16777215 1 (Vector3 1 1 1),
          PointLight 16777215 1 100 (Vector3 0 5 0)],
       camera :=
         Some ((PerspectiveCamera 75 (innerWidth env / innerHeight env) (1 / 10) 1000)
                 \<lparr>camPosition := Vector3 0 2 5\<rparr>)\<rparr>"

text \<open>\<^verbatim>\<open>// Add a simple test object to verify rendering\<close>.\<close>

definition addTestCube :: "World \<Rightarrow> World" where
  "addTestCube w =
     w\<lparr>scene := scene w @
         [BoxMesh (Vector3 1 1 1) (ViewerMaterial (length (materialHeap w))) (Vector3 0 0 0)],
       materialHeap := materialHeap w @ [MeshPhongMaterial None (Some 16711680) 30 True (1 / 2)]\<rparr>"

definition initCatch :: "World \<Rightarrow> World" where
  "initCatch w = w\<lparr>error := Some ''Failed to initialize 3D viewer'', loading := False\<rparr>"

definition textureLoad :: "Env \<Rightarrow> World \<Rightarrow> World" where
  "textureLoad env w =
     (case textureResult env of
        OnLoad texture \<Rightarrow> textureLoaded env texture (load ''capsule0.jpg'' w)
      | OnError \<Rightarrow> textureError env (load ''capsule0.jpg'' w)
      | NoCallback \<Rightarrow> load ''capsule0.jpg'' w)"

definition init :: "Env \<Rightarrow> World \<Rightarrow> World" where
  "init env w =
     (if \<not> mountCurrent env then w
      else if initThrows env then initCatch (setupScene env w)
      else textureLoad env (addTestCube (setupScene env w)))"

text \<open>One mount of the component, run until no callback is left to fire.\<close>

definition run :: "Env \<Rightarrow> World" where
  "run env = init env initialWorld"

section \<open>Notions used to state the properties\<close>

definition isMesh :: "Object3D \<Rightarrow> bool" where
  "isMesh child = (case kind child of Mesh geometry m \<Rightarrow> True | NotMesh \<Rightarrow> False)"

text \<open>The number of sub-meshes of a node.\<close>

definition meshCount :: "Object3D \<Rightarrow> nat" where
  "meshCount object = length (filter isMesh (traverse object))"

text \<open>The material reference of a visited node, if it is a mesh that has one.\<close>

definition materialOf :: "Object3D \<Rightarrow> Material list" where
  "materialOf child =
     (case kind child of
        Mesh geometry m \<Rightarrow> (case m of Some material \<Rightarrow> [material] | None \<Rightarrow> [])
      | NotMesh \<Rightarrow> [])"

definition meshMaterials :: "Object3D \<Rightarrow> Material list" where
  "meshMaterials object = concat (map materialOf (traverse object))"

text \<open>
  The count a sub-mesh contributes faces from: the length of its index buffer when it has
  one, else the number of its vertex positions; none for a node that is not a mesh with
  a buffer geometry that has either.
\<close>

definition faceSource :: "Object3D \<Rightarrow> nat option" where
  "faceSource child =
     (case kind child of
        Mesh geometry m \<Rightarrow>
          (case geometry of
             BufferGeometry positionAttr indexAttr \<Rightarrow>
               (case indexAttr of Some i \<Rightarrow> Some i | None \<Rightarrow> positionAttr)
           | OtherGeometry \<Rightarrow> None)
      | NotMesh \<Rightarrow> None)"

text \<open>The counts of the sub-meshes of a node that contribute faces, in traversal order.\<close>

definition faceSources :: "Object3D \<Rightarrow> nat list" where
  "faceSources object = concat (map (\<lambda>child. case faceSource child of Some n \<Rightarrow> [n] | None \<Rightarrow> []) (traverse object))"

text \<open>The loaded node as it sits in the scene.\<close>

definition sceneModels :: "World \<Rightarrow> Object3D list" where
  "sceneModels w = concat (map (\<lambda>item. case item of Model object \<Rightarrow> [object] | _ \<Rightarrow> []) (scene w))"

text \<open>The messages the component passes to \<^verbatim>\<open>setError\<close>.\<close>

definition errorMessages :: "string list" where
  "errorMessages =
     [''Failed to load 3D model. Please check if model files exist in the correct location.'',
      ''Failed to load model with or without materials.'',
      ''Failed to load 3D model without texture.'',
      ''Failed to load materials and texture.'',
      ''Failed to initialize 3D viewer'']"

text \<open>What \<^verbatim>\<open>init\<close> has put into the scene when the first fetch is issued.\<close>

definition initScene :: "SceneItem list" where
  "initScene =
     [GridHelper 10 10, AxesHelper 5, AmbientLight 16777215 (7 / 10),
      DirectionalLight 16777215 1 (Vector3 1 1 1),
      PointLight 16777215 1 100 (Vector3 0 5 0),
      BoxMesh (Vector3 1 1 1) (ViewerMaterial 0) (Vector3 0 0 0)]"

text \<open>
  The default content of the scene: grid and axis helpers and the lights (the background
  is a property of the scene, not an object in it).
\<close>

definition isDefaultContent :: "SceneItem \<Rightarrow> bool" where
  "isDefaultContent item =
     (case item of
        GridHelper size' divisions \<Rightarrow> True
      | AxesHelper size' \<Rightarrow> True
      | AmbientLight c i \<Rightarrow> True
      | DirectionalLight c i p \<Rightarrow> True
      | PointLight c i d p \<Rightarrow> True
      | _ \<Rightarrow> False)"

text \<open>The world in which the texture fetch is issued: scene set up, test cube added.\<close>

definition mounted :: "Env \<Rightarrow> World" where
  "mounted env = addTestCube (setupScene env initialWorld)"

text \<open>The camera as \<^verbatim>\<open>init\<close> leaves it.\<close>

definition initialCamera :: "Env \<Rightarrow> Camera" where
  "initialCamera env =
     \<lparr>fov = 75, aspect = innerWidth env / innerHeight env, near = 1 / 10, far = 1000,
      camPosition = Vector3 0 2 5, lookAtTarget = None,
      projection = (75, innerWidth env / innerHeight env, 1 / 10, 1000)\<rparr>"

subsection \<open>Example inputs\<close>

text \<open>A cube of 8 vertices and 12 triangles, extents 2 by 2 by 2.\<close>

definition cubeMesh :: Object3D where
  "cubeMesh =
     Object3D (Mesh (BufferGeometry (Some 8) (Some 36)) (Some (LoaderMaterial 0)))
       (Vector3 0 0 0) []"

definition cubeObject :: Object3D where
  "cubeObject = Object3D NotMesh (Vector3 0 0 0) [cubeMesh]"

text \<open>A group of two meshes that share one material of the library.\<close>

definition twoMeshObject :: Object3D where
  "twoMeshObject = Object3D NotMesh (Vector3 0 0 0) [cubeMesh, cubeMesh]"

text \<open>A single mesh without index, with 4 vertex positions.\<close>

definition oddMesh :: Object3D where
  "oddMesh = Object3D (Mesh (BufferGeometry (Some 4) None) None) (Vector3 0 0 0) []"

text \<open>Six meshes without index, each with a single vertex position.\<close>

definition sixPoints :: Object3D where
  "sixPoints =
     Object3D NotMesh (Vector3 0 0 0)
       (replicate 6 (Object3D (Mesh (BufferGeometry (Some 1) None) None) (Vector3 0 0 0) []))"

definition cubeBox :: Box3 where
  "cubeBox = Box3 (Vector3 0 0 0) (Vector3 2 2 2)"

definition exampleEnv ::
    "Texture Outcome \<Rightarrow> MaterialCreator Outcome \<Rightarrow> Object3D Outcome \<Rightarrow> Env" where
  "exampleEnv tex mtl obj =
     \<lparr>mountCurrent = True, initThrows = False, innerWidth = 800, innerHeight = 600,
      textureResult = tex, mtlResult = mtl, objResult = (\<lambda>m. obj),
      setFromObject = (\<lambda>object. cubeBox)\<rparr>"

definition exampleLibrary :: MaterialCreator where
  "exampleLibrary = MaterialCreator [''body'', ''cap'']"


section \<open>Rounding to double precision\<close>

lemma powr_powi: "2 powr real_of_int k = (2::real) powi k"
  by (simp add: powr_real_of_int power_int_def power_one_over inverse_eq_divide)

lemma exponent_bounds:
  assumes "x \<noteq> 0"
  shows "2 powi \<lfloor>log 2 \<bar>x\<bar>\<rfloor> \<le> \<bar>x\<bar>" "\<bar>x\<bar> < 2 powi (\<lfloor>log 2 \<bar>x\<bar>\<rfloor> + 1)"
proof -
  have "0 < \<bar>x\<bar>" using assms by simp
  then have "2 powr real_of_int \<lfloor>log 2 \<bar>x\<bar>\<rfloor> \<le> \<bar>x\<bar> \<and> \<bar>x\<bar> < 2 powr real_of_int (\<lfloor>log 2 \<bar>x\<bar>\<rfloor> + 1)"
    using floor_log_eq_powr_iff [of "\<bar>x\<bar>" 2 "\<lfloor>log 2 \<bar>x\<bar>\<rfloor>"] by simp
  then show "2 powi \<lfloor>log 2 \<bar>x\<bar>\<rfloor> \<le> \<bar>x\<bar>" "\<bar>x\<bar> < 2 powi (\<lfloor>log 2 \<bar>x\<bar>\<rfloor> + 1)"
    by (simp_all only: powr_powi)
qed

lemma floor_log2_eq:
  assumes "2 powi k \<le> \<bar>x\<bar>" "\<bar>x\<bar> < 2 powi (k + 1)"
  shows "\<lfloor>log 2 \<bar>x\<bar>\<rfloor> = k"
proof -
  have "0 < (2::real) powi k" by simp
  with assms have "0 < \<bar>x\<bar>" by linarith
  moreover have "2 powr real_of_int k \<le> \<bar>x\<bar> \<and> \<bar>x\<bar> < 2 powr real_of_int (k + 1)"
    using assms by (simp only: powr_powi)
  ultimately show ?thesis
    using floor_log_eq_powr_iff [of "\<bar>x\<bar>" 2 k] by simp
qed

lemma roundHalfEven_of_int: "roundHalfEven (of_int k) = k"
  by (simp add: roundHalfEven_def)

lemma roundHalfEven_nonneg: "0 \<le> y \<Longrightarrow> 0 \<le> roundHalfEven y"
  by (simp add: roundHalfEven_def)

lemma roundHalfEven_near: "\<bar>of_int (roundHalfEven y) - y\<bar> \<le> 1 / 2"
  unfolding roundHalfEven_def by (auto simp: abs_le_iff)

lemma roundDouble_nonneg: "0 \<le> x \<Longrightarrow> 0 \<le> roundDouble x"
  by (simp add: roundDouble_def roundHalfEven_nonneg)

text \<open>Evaluation of a rounding once the exponent is known.\<close>

lemma roundDouble_eval:
  assumes "2 powi k \<le> \<bar>x\<bar>" "\<bar>x\<bar> < 2 powi (k + 1)" "- 1022 \<le> k"
  shows "roundDouble x = of_int (roundHalfEven (x / 2 powi (k - 52))) * 2 powi (k - 52)"
proof -
  have "0 < (2::real) powi k" by simp
  with assms(1) have "0 < \<bar>x\<bar>" by linarith
  then have "x \<noteq> 0" by simp
  moreover have "exponentOf x = k"
    using assms by (simp add: exponentOf_def floor_log2_eq)
  ultimately show ?thesis
    by (simp add: roundDouble_def)
qed


lemma powi_less_cancel: "(2::real) powi a < 2 powi b \<Longrightarrow> a < b"
  by (metis linorder_not_less numeral_One numeral_le_iff one_le_numeral power_int_increasing semiring_norm(69))

lemma powi_le_cancel: "(2::real) powi a \<le> 2 powi b \<Longrightarrow> a \<le> b"
  using power_int_strict_increasing [of b a "2::real"] by (cases "a \<le> b") simp_all

lemma powi_le_mono: "a \<le> b \<Longrightarrow> (2::real) powi a \<le> 2 powi b"
  by (rule power_int_increasing) simp_all

lemma spacing_of_small_exponent:
  assumes "k \<le> 52"
  shows "(2::real) powi (k - 52) = 1 / 2 ^ nat (52 - k)"
proof -
  have "(2::real) powi (k - 52) = 2 powi (- int (nat (52 - k)))"
    using assms by simp
  also have "\<dots> = 1 / 2 ^ nat (52 - k)"
    by (simp only: power_int_minus power_int_of_nat inverse_eq_divide)
  finally show ?thesis .
qed

text \<open>An integer below \<open>2 ^ 53\<close> in absolute value is a double.\<close>

lemma roundDouble_of_int:
  assumes "\<bar>n\<bar> < 2 ^ 53"
  shows "roundDouble (of_int n) = of_int n"
proof (cases "n = 0")
  case True
  then show ?thesis by (simp add: roundDouble_def)
next
  case False
  define x :: real where "x = of_int n"
  define k where "k = \<lfloor>log 2 \<bar>x\<bar>\<rfloor>"
  have x0: "x \<noteq> 0" using False by (simp add: x_def)
  have lo: "2 powi k \<le> \<bar>x\<bar>" and hi: "\<bar>x\<bar> < 2 powi (k + 1)"
    unfolding k_def using exponent_bounds [OF x0] by blast+
  have "1 \<le> \<bar>x\<bar>" using False by (simp add: x_def flip: of_int_abs)
  with hi have "(2::real) powi 0 < 2 powi (k + 1)" by simp
  then have k0: "0 \<le> k" using powi_less_cancel [of 0 "k + 1"] by simp
  have "\<bar>x\<bar> < 2 ^ 53"
    using assms unfolding x_def by (metis of_int_abs of_int_less_iff of_int_numeral of_int_power)
  with lo have "(2::real) powi k < 2 powi 53" by simp
  then have k52: "k \<le> 52" using powi_less_cancel [of k 53] by simp
  have e: "exponentOf x = k"
    using k0 by (simp add: exponentOf_def k_def)
  have u: "(2::real) powi (k - 52) = 1 / 2 ^ nat (52 - k)"
    by (rule spacing_of_small_exponent [OF k52])
  have q: "x / 2 powi (k - 52) = of_int (n * 2 ^ nat (52 - k))"
    by (simp add: u x_def)
  have "roundDouble x = of_int (roundHalfEven (x / 2 powi (k - 52))) * 2 powi (k - 52)"
    using x0 by (simp add: roundDouble_def e)
  also have "\<dots> = of_int (n * 2 ^ nat (52 - k)) * 2 powi (k - 52)"
    by (simp only: q roundHalfEven_of_int)
  also have "\<dots> = x"
    by (simp add: u x_def)
  finally show ?thesis by (simp add: x_def)
qed

lemma roundDouble_of_nat: "n < 2 ^ 53 \<Longrightarrow> roundDouble (real n) = real n"
  using roundDouble_of_int [of "int n"] by (simp add: of_nat_less_numeral_power_cancel_iff)


lemma roundDouble_four_thirds: "roundDouble (4 / 3) = 6004799503160661 / 4503599627370496"
  using roundDouble_eval [of 0 "4 / 3"] by (simp add: roundHalfEven_def)

lemma roundDouble_one_third: "roundDouble (1 / 3) = 6004799503160661 / 18014398509481984"
  using roundDouble_eval [of "- 2" "1 / 3"] by (simp add: roundHalfEven_def)

text \<open>The quotient by 3 of a count that is not a multiple of 3 is not a whole number.\<close>

lemma divDouble_3_not_int:
  assumes "\<not> 3 dvd n" "n < 2 ^ 51"
  shows "divDouble (real n) 3 \<notin> \<int>"
proof
  assume int: "divDouble (real n) 3 \<in> \<int>"
  define x :: real where "x = real n / 3"
  define k where "k = \<lfloor>log 2 \<bar>x\<bar>\<rfloor>"
  from assms(1) have n1: "1 \<le> n" by (cases n) simp_all
  then have x13: "1 / 3 \<le> x" by (simp add: x_def)
  then have x0: "x \<noteq> 0" and xabs: "\<bar>x\<bar> = x" by simp_all
  have lo: "2 powi k \<le> x" and hi: "x < 2 powi (k + 1)"
    unfolding k_def using exponent_bounds [OF x0] xabs by simp_all
  have "(2::real) powi (- 2) < 2 powi (k + 1)"
    using x13 hi by simp
  then have k2: "- 2 \<le> k" using powi_less_cancel [of "- 2" "k + 1"] by simp
  have "real n < 2 ^ 51"
    using assms(2) by (simp add: of_nat_less_numeral_power_cancel_iff)
  then have "x < 2 ^ 51" by (simp add: x_def)
  with lo have "(2::real) powi k < 2 powi 51" by simp
  then have k50: "k \<le> 50" using powi_less_cancel [of k 51] by simp
  have e: "exponentOf x = k"
    using k2 by (simp add: exponentOf_def k_def)
  define P :: int where "P = 2 ^ nat (50 - k)"
  have P1: "1 \<le> P" by (simp add: P_def)
  have "nat (52 - k) = Suc (Suc (nat (50 - k)))" using k50 by simp
  then have "(2::real) ^ nat (52 - k) = of_int (4 * P)"
    by (simp add: P_def)
  with spacing_of_small_exponent [of k] k50
  have u: "(2::real) powi (k - 52) = 1 / of_int (4 * P)" by simp
  define m where "m = roundHalfEven (x / 2 powi (k - 52))"
  have r: "divDouble (real n) 3 = of_int m / of_int (4 * P)"
    using x0 by (simp add: divDouble_def roundDouble_def e m_def u flip: x_def)
  from int obtain j :: int where j: "of_int m / of_int (4 * P) = (of_int j :: real)"
    unfolding r by (auto elim: Ints_cases)
  have "(of_int m :: real) = of_int (4 * P * j)"
    using j P1 by (simp add: field_simps)
  then have mj: "m = 4 * P * j" by (simp only: of_int_eq_iff)
  have "\<bar>of_int m - x / 2 powi (k - 52)\<bar> \<le> 1 / 2"
    unfolding m_def by (rule roundHalfEven_near)
  then have "\<bar>of_int (4 * P * j) - real n / 3 * of_int (4 * P)\<bar> \<le> (1 / 2 :: real)"
    by (simp add: mj u x_def)
  then have "\<bar>3 * of_int (4 * P * j) - real n * of_int (4 * P)\<bar> \<le> (3 / 2 :: real)"
    by (simp add: abs_le_iff field_simps)
  then have "\<bar>(of_int (3 * (4 * P * j) - int n * (4 * P)) :: real)\<bar> \<le> 3 / 2"
    by simp
  then have "(of_int \<bar>3 * (4 * P * j) - int n * (4 * P)\<bar> :: real) \<le> 3 / 2"
    by (simp only: of_int_abs)
  then have "\<bar>3 * (4 * P * j) - int n * (4 * P)\<bar> \<le> 1"
    by linarith
  then have small: "\<bar>4 * P * (3 * j - int n)\<bar> \<le> 1"
    by (simp add: algebra_simps)
  have "3 * j - int n = 0"
  proof (rule ccontr)
    assume "3 * j - int n \<noteq> 0"
    then have "1 \<le> \<bar>3 * j - int n\<bar>" by simp
    moreover have "4 \<le> 4 * P" using P1 by simp
    ultimately have "4 * 1 \<le> (4 * P) * \<bar>3 * j - int n\<bar>"
      by (intro mult_mono) simp_all
    moreover have "\<bar>4 * P * (3 * j - int n)\<bar> = (4 * P) * \<bar>3 * j - int n\<bar>"
      using P1 by (simp add: abs_mult)
    ultimately show False using small by simp
  qed
  then have "int n = 3 * j" by simp
  then have "3 dvd int n" by simp
  then have "3 dvd n" by presburger
  with assms(1) show False by simp
qed

text \<open>A value \<open>m * 2 ^ q\<close> with \<open>\<bar>m\<bar> \<le> 2 ^ 53\<close> and \<open>- 1074 \<le> q\<close> is a double.\<close>

lemma roundDouble_representable:
  assumes "\<bar>m\<bar> \<le> 2 ^ 53" "- 1074 \<le> q"
  shows "roundDouble (of_int m * 2 powi q) = of_int m * 2 powi q"
proof (cases "m = 0")
  case True
  then show ?thesis by (simp add: roundDouble_def)
next
  case False
  define r :: real where "r = of_int m * 2 powi q"
  define k where "k = \<lfloor>log 2 \<bar>r\<bar>\<rfloor>"
  have r0: "r \<noteq> 0" using False by (simp add: r_def)
  have lo: "2 powi k \<le> \<bar>r\<bar>" and hi: "\<bar>r\<bar> < 2 powi (k + 1)"
    unfolding k_def using exponent_bounds [OF r0] by blast+
  have rabs: "\<bar>r\<bar> = of_int \<bar>m\<bar> * 2 powi q"
    by (simp add: r_def abs_mult)
  have "(of_int \<bar>m\<bar> :: real) \<le> 2 ^ 53"
    using assms(1) by (metis of_int_le_iff of_int_numeral of_int_power)
  then have "\<bar>r\<bar> \<le> 2 ^ 53 * 2 powi q"
    unfolding rabs by (intro mult_right_mono) simp_all
  also have "\<dots> = 2 powi (q + 53)"
    by (simp add: power_int_add)
  finally have "(2::real) powi k \<le> 2 powi (q + 53)"
    using lo by linarith
  then have kq: "k \<le> q + 53"
    by (rule powi_le_cancel)
  define d where "d = max k (- 1022)"
  have e: "exponentOf r = d"
    by (simp add: exponentOf_def k_def d_def)
  have "\<exists>i :: int. r / 2 powi (d - 52) = of_int i"
  proof (cases "d \<le> q + 52")
    case True
    then have "r / 2 powi (d - 52) = of_int m * 2 powi (q - (d - 52))"
      by (simp add: r_def power_int_diff)
    also have "q - (d - 52) = int (nat (q + 52 - d))"
      using True by simp
    also have "of_int m * (2::real) powi int (nat (q + 52 - d)) = of_int (m * 2 ^ nat (q + 52 - d))"
      by (simp only: power_int_of_nat of_int_mult of_int_power of_int_numeral)
    finally show ?thesis by blast
  next
    case False
    with kq assms(2) have dk: "d = q + 53" "k = q + 53"
      by (simp_all add: d_def)
    have "(1::real) \<le> of_int \<bar>m\<bar>" using \<open>m \<noteq> 0\<close> by (simp flip: of_int_abs)
    from lo have "2 powi (q + 53) \<le> of_int \<bar>m\<bar> * (2::real) powi q"
      by (simp add: dk rabs)
    then have "2 ^ 53 * (2::real) powi q \<le> of_int \<bar>m\<bar> * 2 powi q"
      by (simp add: power_int_add)
    then have "(2::real) ^ 53 \<le> of_int \<bar>m\<bar>"
      by simp
    with \<open>(of_int \<bar>m\<bar> :: real) \<le> 2 ^ 53\<close> have "(of_int \<bar>m\<bar> :: real) = 2 ^ 53"
      by linarith
    then have "\<bar>m\<bar> = 2 ^ 53"
      by (metis of_int_eq_iff of_int_numeral of_int_power)
    then have "m = 2 ^ 53 \<or> m = - (2 ^ 53)"
      by linarith
    moreover have "(2::real) powi (d - 52) = 2 * 2 powi q"
      by (simp add: dk power_int_add)
    ultimately have "r / 2 powi (d - 52) = of_int (2 ^ 52) \<or> r / 2 powi (d - 52) = of_int (- (2 ^ 52))"
      by (auto simp: r_def)
    then show ?thesis by blast
  qed
  then obtain i :: int where i: "r / 2 powi (d - 52) = of_int i"
    by blast
  have "roundDouble r = of_int (roundHalfEven (r / 2 powi (d - 52))) * 2 powi (d - 52)"
    using r0 by (simp add: roundDouble_def e)
  also have "\<dots> = r / 2 powi (d - 52) * 2 powi (d - 52)"
    by (simp only: i roundHalfEven_of_int)
  also have "\<dots> = r"
    by simp
  finally show ?thesis by (simp add: r_def)
qed

lemma roundHalfEven_bound:
  assumes "\<bar>y\<bar> \<le> of_int b"
  shows "\<bar>roundHalfEven y\<bar> \<le> b"
proof -
  have f1: "- b \<le> \<lfloor>y\<rfloor>" using assms by (simp add: le_floor_iff abs_le_iff) 
  have f2: "\<lfloor>y\<rfloor> \<le> b" using assms by (simp add: floor_le_iff abs_le_iff)
  have up: "\<lfloor>y\<rfloor> + 1 \<le> b" if "of_int \<lfloor>y\<rfloor> < y"
  proof -
    from that assms have "of_int \<lfloor>y\<rfloor> < (of_int b :: real)" by (simp add: abs_le_iff)
    then have "\<lfloor>y\<rfloor> < b" by (simp only: of_int_less_iff)
    then show ?thesis by simp
  qed
  show ?thesis
    unfolding roundHalfEven_def using f1 f2 up by (auto simp: abs_le_iff)
qed

text \<open>Rounding yields a double: rounding again changes nothing.\<close>

lemma roundDouble_idem: "roundDouble (roundDouble x) = roundDouble x"
proof (cases "x = 0")
  case True
  then show ?thesis by (simp add: roundDouble_def)
next
  case False
  define k where "k = \<lfloor>log 2 \<bar>x\<bar>\<rfloor>"
  define d where "d = max k (- 1022)"
  have e: "exponentOf x = d"
    by (simp add: exponentOf_def k_def d_def)
  have hi: "\<bar>x\<bar> < 2 powi (k + 1)"
    unfolding k_def using exponent_bounds [OF False] by blast
  have "(2::real) powi (k + 1) \<le> 2 powi (d + 1)"
    by (rule powi_le_mono) (simp add: d_def)
  with hi have "\<bar>x\<bar> < 2 powi (d + 1)" by linarith
  then have "\<bar>x\<bar> / 2 powi (d - 52) < 2 powi (d + 1) / 2 powi (d - 52)"
    by (simp add: divide_strict_right_mono)
  also have "(2::real) powi (d + 1) / 2 powi (d - 52) = 2 powi 53"
    by (simp add: power_int_diff [symmetric])
  finally have "\<bar>x / 2 powi (d - 52)\<bar> \<le> of_int (2 ^ 53)"
    by simp
  then have m: "\<bar>roundHalfEven (x / 2 powi (d - 52))\<bar> \<le> 2 ^ 53"
    by (rule roundHalfEven_bound)
  have q: "- 1074 \<le> d - 52"
    by (simp add: d_def)
  have "roundDouble x = of_int (roundHalfEven (x / 2 powi (d - 52))) * 2 powi (d - 52)"
    using False by (simp add: roundDouble_def e)
  then show ?thesis
    using roundDouble_representable [OF m q] by simp
qed

lemma addDouble_zero_divDouble: "addDouble 0 (divDouble a b) = divDouble a b"
  by (simp add: addDouble_def divDouble_def roundDouble_idem)

section \<open>The face count as a sum in double precision\<close>

lemma countFacesStep_faceSource:
  "countFacesStep child count =
     (case faceSource child of
        Some n \<Rightarrow> addDouble count (divDouble (real n) 3)
      | None \<Rightarrow> count)"
  by (simp add: countFacesStep_def faceSource_def
      split: NodeKind.splits Geometry.splits option.splits)

lemma fold_countFacesStep:
  "fold countFacesStep xs count =
     fold (\<lambda>n c. addDouble c (divDouble (real n) 3))
       (concat (map (\<lambda>child. case faceSource child of Some n \<Rightarrow> [n] | None \<Rightarrow> []) xs)) count"
  by (induction xs arbitrary: count)
    (simp_all add: countFacesStep_faceSource split: option.splits)

lemma countFaces_faceSources:
  "countFaces object = fold (\<lambda>n c. addDouble c (divDouble (real n) 3)) (faceSources object) 0"
  by (simp add: countFaces_def faceSources_def fold_countFacesStep)

lemma fold_faces_nonneg:
  "0 \<le> c \<Longrightarrow> 0 \<le> fold (\<lambda>n c. addDouble c (divDouble (real n) 3)) ns c"
proof (induction ns arbitrary: c)
  case Nil
  then show ?case by simp
next
  case (Cons n ns)
  have "0 \<le> divDouble (real n) 3"
    by (simp add: divDouble_def roundDouble_nonneg)
  with Cons.prems have "0 \<le> addDouble c (divDouble (real n) 3)"
    by (simp add: addDouble_def roundDouble_nonneg)
  then show ?case
    by (simp add: Cons.IH)
qed

lemma fold_faces_exact:
  "list_all (\<lambda>n. 3 dvd n) ns \<Longrightarrow> a + (\<Sum>n\<leftarrow>ns. n div 3) < 2 ^ 53 \<Longrightarrow>
   fold (\<lambda>n c. addDouble c (divDouble (real n) 3)) ns (real a) = real (a + (\<Sum>n\<leftarrow>ns. n div 3))"
proof (induction ns arbitrary: a)
  case Nil
  then show ?case by simp
next
  case (Cons n ns)
  from Cons.prems have d: "3 dvd n" and rest: "list_all (\<lambda>n. 3 dvd n) ns"
    and bound: "(a + n div 3) + (\<Sum>n\<leftarrow>ns. n div 3) < 2 ^ 53"
    by (simp_all add: add.assoc)
  from bound have b1: "n div 3 < 2 ^ 53" and b2: "a + n div 3 < 2 ^ 53"
    by linarith+
  have "real n / 3 = real (n div 3)"
    using d by (simp add: real_of_nat_div)
  then have q: "divDouble (real n) 3 = real (n div 3)"
    using b1 by (simp add: divDouble_def roundDouble_of_nat)
  have "addDouble (real a) (real (n div 3)) = roundDouble (real (a + n div 3))"
    by (simp add: addDouble_def)
  also have "\<dots> = real (a + n div 3)"
    using b2 by (rule roundDouble_of_nat)
  finally have s: "addDouble (real a) (divDouble (real n) 3) = real (a + n div 3)"
    by (simp only: q)
  show ?case
    using Cons.IH [OF rest bound] by (simp add: s add.assoc)
qed

lemma roundDouble_zero: "roundDouble 0 = 0"
  by (simp add: roundDouble_def)

lemma roundDouble_one: "roundDouble 1 = 1"
  using roundDouble_of_int [of 1] by simp

lemma roundDouble_numeral: "numeral w < (2 :: int) ^ 53 \<Longrightarrow> roundDouble (numeral w) = numeral w"
  using roundDouble_of_int [of "numeral w"] by simp

section \<open>Runs along each path of the pipeline\<close>

lemmas example_defs = exampleEnv_def exampleLibrary_def cubeObject_def twoMeshObject_def
  cubeMesh_def oddMesh_def cubeBox_def

lemmas eval_defs = run_def init_def textureLoad_def textureLoaded_def textureError_def
  mtlLoadedMain_def mtlErrorMain_def mtlLoadedNoTexture_def mtlErrorNoTexture_def
  objLoadedMain_def objErrorMain_def objLoadedFallback_def objErrorFallback_def
  objLoadedNoTexture_def objErrorNoTexture_def initCatch_def addTestCube_def setupScene_def
  load_def initialWorld_def loadState_def centerObject_def getCenter_def getSize_def
  isEmpty_def sub_def countVertices_def countVerticesStep_def
  countFaces_faceSources faceSources_def faceSource_def addDouble_def divDouble_def
  roundDouble_zero roundDouble_one roundDouble_numeral
  collectMaterials_def materialCountStep_def setAdd_def Let_def

lemma run_main:
  assumes "mountCurrent env" "\<not> initThrows env" "textureResult env = OnLoad texture"
    "mtlResult env = OnLoad lib" "objResult env (Some lib) = OnLoad object"
  shows "run env = objLoadedMain env texture object
           (load ''capsule.obj'' (load ''capsule.mtl'' (load ''capsule0.jpg'' (mounted env))))"
  using assms
  by (simp add: run_def init_def textureLoad_def textureLoaded_def mtlLoadedMain_def mounted_def)

lemma run_main_objError:
  assumes "mountCurrent env" "\<not> initThrows env" "textureResult env = OnLoad texture"
    "mtlResult env = OnLoad lib" "objResult env (Some lib) = OnError"
  shows "run env = objErrorMain
           (load ''capsule.obj'' (load ''capsule.mtl'' (load ''capsule0.jpg'' (mounted env))))"
  using assms
  by (simp add: run_def init_def textureLoad_def textureLoaded_def mtlLoadedMain_def mounted_def)

lemma run_fallback:
  assumes "mountCurrent env" "\<not> initThrows env" "textureResult env = OnLoad texture"
    "mtlResult env = OnError" "objResult env None = OnLoad object"
  shows "run env = objLoadedFallback env texture object
           (load ''capsule.obj'' (load ''capsule.mtl'' (load ''capsule0.jpg'' (mounted env))))"
  using assms
  by (simp add: run_def init_def textureLoad_def textureLoaded_def mtlErrorMain_def mounted_def)

lemma run_fallback_objError:
  assumes "mountCurrent env" "\<not> initThrows env" "textureResult env = OnLoad texture"
    "mtlResult env = OnError" "objResult env None = OnError"
  shows "run env = objErrorFallback
           (load ''capsule.obj'' (load ''capsule.mtl'' (load ''capsule0.jpg'' (mounted env))))"
  using assms
  by (simp add: run_def init_def textureLoad_def textureLoaded_def mtlErrorMain_def mounted_def)

lemma run_noTexture:
  assumes "mountCurrent env" "\<not> initThrows env" "textureResult env = OnError"
    "mtlResult env = OnLoad lib" "objResult env (Some lib) = OnLoad object"
  shows "run env = objLoadedNoTexture env object
           (load ''capsule.obj'' (load ''capsule.mtl'' (load ''capsule0.jpg'' (mounted env))))"
  using assms
  by (simp add: run_def init_def textureLoad_def textureError_def mtlLoadedNoTexture_def mounted_def)

lemma run_noTexture_objError:
  assumes "mountCurrent env" "\<not> initThrows env" "textureResult env = OnError"
    "mtlResult env = OnLoad lib" "objResult env (Some lib) = OnError"
  shows "run env = objErrorNoTexture
           (load ''capsule.obj'' (load ''capsule.mtl'' (load ''capsule0.jpg'' (mounted env))))"
  using assms
  by (simp add: run_def init_def textureLoad_def textureError_def mtlLoadedNoTexture_def mounted_def)

lemma run_noTexture_mtlError:
  assumes "mountCurrent env" "\<not> initThrows env" "textureResult env = OnError"
    "mtlResult env = OnError"
  shows "run env = mtlErrorNoTexture (load ''capsule.mtl'' (load ''capsule0.jpg'' (mounted env)))"
  using assms
  by (simp add: run_def init_def textureLoad_def textureError_def mounted_def)

lemma run_stalled_texture:
  assumes "mountCurrent env" "\<not> initThrows env" "textureResult env = NoCallback"
  shows "run env = load ''capsule0.jpg'' (mounted env)"
  using assms by (simp add: run_def init_def textureLoad_def mounted_def)

lemma mounted_fields:
  "modelMetadata (mounted env) = None" "loading (mounted env)" "error (mounted env) = None"
  "background (mounted env) = Some 1184274" "scene (mounted env) = initScene"
  "camera (mounted env) = Some (initialCamera env)"
  "materialHeap (mounted env) = [MeshPhongMaterial None (Some 16711680) 30 True (1 / 2)]"
  "requested (mounted env) = []"
  by (simp_all add: mounted_def addTestCube_def setupScene_def initialWorld_def initScene_def
      initialCamera_def PerspectiveCamera_def updateProjectionMatrix_def)

lemma run_unfold:
  "run env =
     (if \<not> mountCurrent env then initialWorld
      else if initThrows env then initCatch (setupScene env initialWorld)
      else textureLoad env (mounted env))"
  by (simp add: run_def init_def mounted_def)

lemma initialWorld_fields:
  "modelMetadata initialWorld = None" "loading initialWorld" "error initialWorld = None"
  "scene initialWorld = []" "requested initialWorld = []"
  by (simp_all add: initialWorld_def)

lemma load_fields:
  "modelMetadata (load url w) = modelMetadata w" "loading (load url w) = loading w"
  "error (load url w) = error w" "background (load url w) = background w"
  "scene (load url w) = scene w" "camera (load url w) = camera w"
  "materialHeap (load url w) = materialHeap w" "requested (load url w) = requested w @ [url]"
  by (simp_all add: load_def)

lemma objLoadedMain_fields:
  "loading (objLoadedMain env texture object w) = False"
  "error (objLoadedMain env texture object w) = error w"
  "background (objLoadedMain env texture object w) = background w"
  "requested (objLoadedMain env texture object w) = requested w"
  "camera (objLoadedMain env texture object w)
     = map_option (adjustCamera (getSize (setFromObject env object))) (camera w)"
  by (simp_all add: objLoadedMain_def Let_def split: prod.splits)

lemma objLoadedFallback_fields:
  "loading (objLoadedFallback env texture object w) = False"
  "error (objLoadedFallback env texture object w) = error w"
  "background (objLoadedFallback env texture object w) = background w"
  "requested (objLoadedFallback env texture object w) = requested w"
  "camera (objLoadedFallback env texture object w) = camera w"
  by (simp_all add: objLoadedFallback_def Let_def split: prod.splits)

lemma objLoadedNoTexture_fields:
  "loading (objLoadedNoTexture env object w) = False"
  "error (objLoadedNoTexture env object w) = error w"
  "background (objLoadedNoTexture env object w) = background w"
  "requested (objLoadedNoTexture env object w) = requested w"
  "camera (objLoadedNoTexture env object w) = camera w"
  "materialHeap (objLoadedNoTexture env object w) = materialHeap w"
  by (simp_all add: objLoadedNoTexture_def Let_def)


section \<open>Fresh materials\<close>

lemma materialCountStep_setAdd:
  "materialCountStep child s = fold setAdd (materialOf child) s"
  by (simp add: materialCountStep_def materialOf_def split: NodeKind.splits option.splits)

lemma fold_materialCountStep:
  "fold materialCountStep xs s = fold setAdd (concat (map materialOf xs)) s"
  by (induction xs arbitrary: s) (simp_all add: materialCountStep_setAdd)

lemma collectMaterials_meshMaterials:
  "collectMaterials object = fold setAdd (meshMaterials object) []"
  by (simp add: collectMaterials_def meshMaterials_def fold_materialCountStep)

lemma fold_setAdd_distinct:
  "distinct (s @ ms) \<Longrightarrow> fold setAdd ms s = s @ ms"
  by (induction ms arbitrary: s) (auto simp: setAdd_def)

lemma length_filter_concat:
  "length (filter P (concat xss)) = sum_list (map (\<lambda>xs. length (filter P xs)) xss)"
  by (induction xss) simp_all

lemma meshCount_Mesh:
  "meshCount (Object3D (Mesh g m) p cs) = Suc (sum_list (map meshCount cs))"
  by (simp add: meshCount_def [abs_def] isMesh_def length_filter_concat comp_def)

lemma meshCount_NotMesh:
  "meshCount (Object3D NotMesh p cs) = sum_list (map meshCount cs)"
  by (simp add: meshCount_def [abs_def] isMesh_def length_filter_concat comp_def)

lemma concat_map_concat:
  "concat (map f (concat xss)) = concat (map (\<lambda>xs. concat (map f xs)) xss)"
  by (induction xss) simp_all

lemma meshMaterials_Mesh:
  "meshMaterials (Object3D (Mesh g (Some m)) p cs) = m # concat (map meshMaterials cs)"
  by (simp add: meshMaterials_def [abs_def] materialOf_def concat_map_concat comp_def)

lemma meshMaterials_NotMesh:
  "meshMaterials (Object3D NotMesh p cs) = concat (map meshMaterials cs)"
  by (simp add: meshMaterials_def [abs_def] materialOf_def concat_map_concat comp_def)

lemma upt_split_add: "[a ..< a + (b + c)] = [a ..< a + b] @ [a + b ..< a + (b + c)]"
  using upt_add_eq_append [of a "a + b" c] by (simp add: add.assoc)

lemma assignMaterial_fresh:
  "meshMaterials (fst (assignMaterial mat object heap))
     = map ViewerMaterial [length heap ..< length heap + meshCount object]
   \<and> length (snd (assignMaterial mat object heap)) = length heap + meshCount object"
  and assignMaterials_fresh:
  "concat (map meshMaterials (fst (assignMaterials mat cs heap)))
     = map ViewerMaterial [length heap ..< length heap + sum_list (map meshCount cs)]
   \<and> length (snd (assignMaterials mat cs heap)) = length heap + sum_list (map meshCount cs)"
proof (induction mat object heap and mat cs heap rule: assignMaterial_assignMaterials.induct)
  case (1 mat k p cs heap)
  show ?case
  proof (cases k)
    case (Mesh g m)
    obtain cs' heap' where cs: "assignMaterials mat cs (heap @ [mat]) = (cs', heap')"
      by (cases "assignMaterials mat cs (heap @ [mat])")
    from 1(1) [OF Mesh] cs
    have h: "concat (map meshMaterials cs')
        = map ViewerMaterial [Suc (length heap) ..< Suc (length heap + sum_list (map meshCount cs))]"
      and l: "length heap' = Suc (length heap + sum_list (map meshCount cs))"
      by (simp_all del: upt_Suc)
    have "[length heap ..< Suc (length heap + sum_list (map meshCount cs))]
        = length heap # [Suc (length heap) ..< Suc (length heap + sum_list (map meshCount cs))]"
      by (simp add: upt_conv_Cons del: upt_Suc)
    with Mesh cs h l show ?thesis
      by (simp add: meshCount_Mesh meshMaterials_Mesh del: upt_Suc)
  next
    case NotMesh
    with 1(2) show ?thesis
      by (auto simp: meshCount_NotMesh meshMaterials_NotMesh split: prod.splits)
  qed
next
  case (2 mat heap)
  then show ?case by simp
next
  case (3 mat c cs heap)
  obtain c' heap' where c: "assignMaterial mat c heap = (c', heap')"
    by (cases "assignMaterial mat c heap")
  obtain cs' heap'' where cs: "assignMaterials mat cs heap' = (cs', heap'')"
    by (cases "assignMaterials mat cs heap'")
  from 3(1) c have h1: "meshMaterials c' = map ViewerMaterial [length heap ..< length heap + meshCount c]"
    and l1: "length heap' = length heap + meshCount c" by simp_all
  from 3(2) [OF c [symmetric]] cs l1
  have h2: "concat (map meshMaterials cs') = map ViewerMaterial [length heap + meshCount c ..< length heap + meshCount c + sum_list (map meshCount cs)]"
    and l2: "length heap'' = length heap + meshCount c + sum_list (map meshCount cs)" by simp_all
  show ?case
    by (simp add: c cs h1 h2 l2 add.assoc upt_split_add [of "length heap"] flip: map_append)
qed

lemma collectMaterials_assignMaterial:
  "length (collectMaterials (fst (assignMaterial mat object heap))) = meshCount object"
  by (simp add: collectMaterials_meshMaterials assignMaterial_fresh fold_setAdd_distinct distinct_map inj_on_def)

lemma meshCount_centerObject: "meshCount (centerObject center object) = meshCount object"
  by (cases object) (simp add: centerObject_def meshCount_def isMesh_def)

lemma position_assignMaterial:
  "position (fst (assignMaterial mat object heap)) = position object"
  by (cases object) (simp split: NodeKind.splits prod.splits)

lemma loadState_Ready:
  "error w = None \<Longrightarrow> \<not> loading w \<Longrightarrow> modelMetadata w = Some md \<Longrightarrow> loadState w = Ready md"
  by (simp add: loadState_def)

lemma loadState_Failed: "error w = Some message \<Longrightarrow> loadState w = Failed message"
  by (simp add: loadState_def)

lemma modelMetadata_objLoadedMain:
  "\<exists>md. modelMetadata (objLoadedMain env texture object w) = Some md
      \<and> materials md = meshCount object
      \<and> dimensions md = \<lparr>width = vx (getSize (setFromObject env object)),
           height = vy (getSize (setFromObject env object)),
           depth = vz (getSize (setFromObject env object))\<rparr>"
proof -
  obtain object' heap' where a:
    "assignMaterial (MeshPhongMaterial (Some texture) None 50 False 1)
       (centerObject (getCenter (setFromObject env object)) object) (materialHeap w)
     = (object', heap')"
    by (cases "assignMaterial (MeshPhongMaterial (Some texture) None 50 False 1)
       (centerObject (getCenter (setFromObject env object)) object) (materialHeap w)")
  have "length (collectMaterials object') = meshCount object"
    using collectMaterials_assignMaterial
      [of "MeshPhongMaterial (Some texture) None 50 False 1"
          "centerObject (getCenter (setFromObject env object)) object" "materialHeap w"]
    by (simp add: a meshCount_centerObject)
  then show ?thesis
    by (simp add: objLoadedMain_def Let_def a)
qed

lemma modelMetadata_objLoadedFallback:
  "\<exists>md. modelMetadata (objLoadedFallback env texture object w) = Some md
      \<and> materials md = 1
      \<and> dimensions md = \<lparr>width = vx (getSize (setFromObject env object)),
           height = vy (getSize (setFromObject env object)),
           depth = vz (getSize (setFromObject env object))\<rparr>"
  by (simp add: objLoadedFallback_def Let_def split: prod.splits)

lemma modelMetadata_objLoadedNoTexture:
  "\<exists>md. modelMetadata (objLoadedNoTexture env object w) = Some md
      \<and> dimensions md = \<lparr>width = vx (getSize (setFromObject env object)),
           height = vy (getSize (setFromObject env object)),
           depth = vz (getSize (setFromObject env object))\<rparr>"
  by (simp add: objLoadedNoTexture_def Let_def)

lemma modelMetadata_loaded:
  "\<exists>md. modelMetadata (objLoadedMain env texture object w) = Some md"
  "\<exists>md. modelMetadata (objLoadedFallback env texture object w) = Some md"
  "\<exists>md. modelMetadata (objLoadedNoTexture env object w) = Some md"
  using modelMetadata_objLoadedMain [of env texture object w]
    modelMetadata_objLoadedFallback [of env texture object w]
    modelMetadata_objLoadedNoTexture [of env object w]
  by blast+

section \<open>Material count of a texture-driven load\<close>

text \<open>
  C1. The claim is that a successful load in which the texture has loaded reports a
  material count of 1, whatever the number of sub-meshes. The component does not: with
  the texture and the material library loaded and a node of two sub-meshes it reports
  2, the number of sub-meshes. On the same node, when the material library fails, the
  fallback reports 1, although it has given the sub-meshes their materials in the same
  way, a new one for each.
\<close>

theorem materialCount_two_meshes:
  "loadState (run (exampleEnv (OnLoad (Texture 0)) (OnLoad exampleLibrary)
      (OnLoad twoMeshObject)))
   = Ready \<lparr>vertices = 16, faces = 24, materials = 2,
       dimensions = \<lparr>width = 2, height = 2, depth = 2\<rparr>\<rparr>
   \<and> loadState (run (exampleEnv (OnLoad (Texture 0)) OnError (OnLoad twoMeshObject)))
   = Ready \<lparr>vertices = 16, faces = 24, materials = 1,
       dimensions = \<lparr>width = 2, height = 2, depth = 2\<rparr>\<rparr>
   \<and> map meshMaterials (sceneModels (run (exampleEnv (OnLoad (Texture 0))
         (OnLoad exampleLibrary) (OnLoad twoMeshObject))))
   = [[ViewerMaterial 1, ViewerMaterial 2]]
   \<and> map meshMaterials (sceneModels (run (exampleEnv (OnLoad (Texture 0)) OnError
         (OnLoad twoMeshObject))))
   = [[ViewerMaterial 1, ViewerMaterial 2]]"
  by (simp add: eval_defs example_defs sceneModels_def meshMaterials_def materialOf_def)

section \<open>Failure of the material load\<close>

lemma error_fields:
  "error (objErrorMain w) = Some ''Failed to load 3D model. Please check if model files exist in the correct location.''"
  "error (objErrorFallback w) = Some ''Failed to load model with or without materials.''"
  "error (objErrorNoTexture w) = Some ''Failed to load 3D model without texture.''"
  "error (mtlErrorNoTexture w) = Some ''Failed to load materials and texture.''"
  "error (initCatch w) = Some ''Failed to initialize 3D viewer''"
  by (simp_all add: objErrorMain_def objErrorFallback_def objErrorNoTexture_def
      mtlErrorNoTexture_def initCatch_def)

lemma error_callback_fields:
  "scene (objErrorMain w) = scene w" "scene (objErrorFallback w) = scene w"
  "scene (objErrorNoTexture w) = scene w" "scene (mtlErrorNoTexture w) = scene w"
  "background (objErrorMain w) = background w" "background (objErrorFallback w) = background w"
  "background (objErrorNoTexture w) = background w"
  "background (mtlErrorNoTexture w) = background w"
  "requested (objErrorMain w) = requested w" "requested (objErrorFallback w) = requested w"
  "requested (objErrorNoTexture w) = requested w" "requested (mtlErrorNoTexture w) = requested w"
  "camera (objErrorMain w) = camera w" "camera (objErrorFallback w) = camera w"
  "camera (objErrorNoTexture w) = camera w" "camera (mtlErrorNoTexture w) = camera w"
  by (simp_all add: objErrorMain_def objErrorFallback_def objErrorNoTexture_def
      mtlErrorNoTexture_def)

text \<open>
  C2 (as amended). When the texture has loaded, the material load fails and the geometry
  load succeeds, the pipeline ends in Ready with a material count of 1. When the texture
  load has failed as well, the failure of the material load is terminal: the state is
  Failed with the message of that branch, and the geometry is never asked for.
\<close>

theorem material_failure_fallback:
  "(mountCurrent env \<and> \<not> initThrows env \<and> textureResult env = OnLoad texture
      \<and> mtlResult env = OnError \<and> objResult env None = OnLoad object
    \<longrightarrow> (\<exists>md. loadState (run env) = Ready md \<and> materials md = 1)
        \<and> requested (run env) = [''capsule0.jpg'', ''capsule.mtl'', ''capsule.obj''])
   \<and> (mountCurrent env \<and> \<not> initThrows env \<and> textureResult env = OnError
      \<and> mtlResult env = OnError
    \<longrightarrow> loadState (run env) = Failed ''Failed to load materials and texture.''
        \<and> requested (run env) = [''capsule0.jpg'', ''capsule.mtl''])"
proof (intro conjI impI)
  assume a: "mountCurrent env \<and> \<not> initThrows env \<and> textureResult env = OnLoad texture
      \<and> mtlResult env = OnError \<and> objResult env None = OnLoad object"
  let ?w = "load ''capsule.obj'' (load ''capsule.mtl'' (load ''capsule0.jpg'' (mounted env)))"
  from a have r: "run env = objLoadedFallback env texture object ?w"
    by (simp add: run_fallback)
  obtain md where md: "modelMetadata (objLoadedFallback env texture object ?w) = Some md"
    "materials md = 1"
    using modelMetadata_objLoadedFallback by blast
  have "loadState (run env) = Ready md"
    by (rule loadState_Ready) (simp_all add: r md objLoadedFallback_fields load_fields mounted_fields)
  with md show "\<exists>md. loadState (run env) = Ready md \<and> materials md = 1"
    by blast
  show "requested (run env) = [''capsule0.jpg'', ''capsule.mtl'', ''capsule.obj'']"
    by (simp add: r objLoadedFallback_fields load_fields mounted_fields)
next
  assume a: "mountCurrent env \<and> \<not> initThrows env \<and> textureResult env = OnError
      \<and> mtlResult env = OnError"
  then have r: "run env = mtlErrorNoTexture (load ''capsule.mtl'' (load ''capsule0.jpg'' (mounted env)))"
    by (simp add: run_noTexture_mtlError)
  show "loadState (run env) = Failed ''Failed to load materials and texture.''"
    by (rule loadState_Failed) (simp add: r error_fields)
  show "requested (run env) = [''capsule0.jpg'', ''capsule.mtl'']"
    by (simp add: r error_callback_fields load_fields mounted_fields)
qed

theorem material_failure_fallback_witness:
  "(\<exists>md. loadState (run (exampleEnv (OnLoad (Texture 0)) OnError (OnLoad cubeObject))) = Ready md
        \<and> materials md = 1)
   \<and> loadState (run (exampleEnv OnError OnError OnError))
       = Failed ''Failed to load materials and texture.''"
  using material_failure_fallback
      [of "exampleEnv (OnLoad (Texture 0)) OnError (OnLoad cubeObject)" "Texture 0" cubeObject]
    material_failure_fallback [of "exampleEnv OnError OnError OnError"]
  by (simp add: exampleEnv_def)

text \<open>
  C2 as stated fails: the material load fails and the geometry would load, but the
  texture has failed before; the state is Failed and the geometry is not requested.
\<close>

theorem material_failure_after_texture_failure:
  "loadState (run (exampleEnv OnError OnError (OnLoad cubeObject)))
     = Failed ''Failed to load materials and texture.''
   \<and> requested (run (exampleEnv OnError OnError (OnLoad cubeObject)))
     = [''capsule0.jpg'', ''capsule.mtl'']"
  by (simp add: eval_defs example_defs)

section \<open>Failure of the texture load\<close>

text \<open>
  C3 (as amended). After a failed texture load the material fetch is issued, and when
  the material library and the geometry then load the pipeline ends in Ready. The
  material fetch is issued by the completion callbacks of the texture fetch, after it:
  the texture is the first file requested, and while the texture fetch has not
  completed nothing else is requested and the state stays Loading.
\<close>

theorem texture_failure_continues:
  "(mountCurrent env \<and> \<not> initThrows env \<and> textureResult env = OnError
      \<and> mtlResult env = OnLoad lib \<and> objResult env (Some lib) = OnLoad object
    \<longrightarrow> (\<exists>md. loadState (run env) = Ready md)
        \<and> requested (run env) = [''capsule0.jpg'', ''capsule.mtl'', ''capsule.obj''])
   \<and> (mountCurrent env \<and> \<not> initThrows env \<and> textureResult env = OnError
    \<longrightarrow> take 2 (requested (run env)) = [''capsule0.jpg'', ''capsule.mtl''])
   \<and> (mountCurrent env \<and> \<not> initThrows env
    \<longrightarrow> take 1 (requested (run env)) = [''capsule0.jpg''])
   \<and> (mountCurrent env \<and> \<not> initThrows env \<and> textureResult env = NoCallback
    \<longrightarrow> requested (run env) = [''capsule0.jpg''] \<and> loadState (run env) = Loading)"
proof (intro conjI impI)
  assume a: "mountCurrent env \<and> \<not> initThrows env \<and> textureResult env = OnError
      \<and> mtlResult env = OnLoad lib \<and> objResult env (Some lib) = OnLoad object"
  let ?w = "load ''capsule.obj'' (load ''capsule.mtl'' (load ''capsule0.jpg'' (mounted env)))"
  from a have r: "run env = objLoadedNoTexture env object ?w"
    by (simp add: run_noTexture)
  obtain md where md: "modelMetadata (objLoadedNoTexture env object ?w) = Some md"
    using modelMetadata_objLoadedNoTexture by blast
  have "loadState (run env) = Ready md"
    by (rule loadState_Ready) (simp_all add: r md objLoadedNoTexture_fields load_fields mounted_fields)
  then show "\<exists>md. loadState (run env) = Ready md" by blast
  show "requested (run env) = [''capsule0.jpg'', ''capsule.mtl'', ''capsule.obj'']"
    by (simp add: r objLoadedNoTexture_fields load_fields mounted_fields)
next
  assume "mountCurrent env \<and> \<not> initThrows env \<and> textureResult env = OnError"
  then show "take 2 (requested (run env)) = [''capsule0.jpg'', ''capsule.mtl'']"
    by (simp add: run_unfold textureLoad_def textureError_def mtlLoadedNoTexture_def
        objLoadedNoTexture_fields error_callback_fields load_fields
        mounted_fields split: Outcome.splits)
next
  assume "mountCurrent env \<and> \<not> initThrows env"
  then show "take 1 (requested (run env)) = [''capsule0.jpg'']"
    by (simp add: run_unfold textureLoad_def textureError_def textureLoaded_def
        mtlLoadedNoTexture_def mtlLoadedMain_def mtlErrorMain_def
        objLoadedNoTexture_fields objLoadedMain_fields objLoadedFallback_fields
        error_callback_fields load_fields
        mounted_fields split: Outcome.splits)
next
  assume a: "mountCurrent env \<and> \<not> initThrows env \<and> textureResult env = NoCallback"
  then have r: "run env = load ''capsule0.jpg'' (mounted env)"
    by (simp add: run_stalled_texture)
  show "requested (run env) = [''capsule0.jpg'']"
    by (simp add: r load_fields mounted_fields)
  show "loadState (run env) = Loading"
    by (simp add: r load_fields mounted_fields loadState_def)
qed

theorem texture_failure_continues_witness:
  "(\<exists>md. loadState (run (exampleEnv OnError (OnLoad exampleLibrary) (OnLoad cubeObject)))
          = Ready md)
   \<and> take 2 (requested (run (exampleEnv OnError (OnLoad exampleLibrary) (OnLoad cubeObject))))
       = [''capsule0.jpg'', ''capsule.mtl'']
   \<and> take 1 (requested (run (exampleEnv (OnLoad (Texture 0)) OnError OnError)))
       = [''capsule0.jpg'']
   \<and> loadState (run (exampleEnv NoCallback (OnLoad exampleLibrary) (OnLoad cubeObject)))
       = Loading"
  using texture_failure_continues
      [of "exampleEnv OnError (OnLoad exampleLibrary) (OnLoad cubeObject)" exampleLibrary cubeObject]
    texture_failure_continues [of "exampleEnv (OnLoad (Texture 0)) OnError OnError"]
    texture_failure_continues
      [of "exampleEnv NoCallback (OnLoad exampleLibrary) (OnLoad cubeObject)"]
  by (simp add: exampleEnv_def)

text \<open>
  C3 as stated fails. With the material load failing and the geometry available, the run
  ends in Ready when the texture loads and in Failed when the texture fails: the
  failure of the texture decides. And when the texture fetch does not complete, neither
  the material library nor the geometry is ever requested, although both would load.
\<close>

theorem texture_failure_decides:
  "loadState (run (exampleEnv (OnLoad (Texture 0)) OnError (OnLoad cubeObject)))
     = Ready \<lparr>vertices = 8, faces = 12, materials = 1,
         dimensions = \<lparr>width = 2, height = 2, depth = 2\<rparr>\<rparr>
   \<and> loadState (run (exampleEnv OnError OnError (OnLoad cubeObject)))
     = Failed ''Failed to load materials and texture.''
   \<and> requested (run (exampleEnv NoCallback (OnLoad exampleLibrary) (OnLoad cubeObject)))
     = [''capsule0.jpg'']"
  by (simp add: eval_defs example_defs)


section \<open>Failure messages\<close>

lemma error_run:
  "error (run env) = None \<or> (\<exists>message \<in> set errorMessages. error (run env) = Some message)"
  by (simp add: run_unfold textureLoad_def textureError_def textureLoaded_def
      mtlLoadedNoTexture_def mtlLoadedMain_def mtlErrorMain_def
      objLoadedNoTexture_fields objLoadedMain_fields objLoadedFallback_fields
      error_fields load_fields mounted_fields initialWorld_fields errorMessages_def
      split: Outcome.splits)

text \<open>
  C5 (as amended). When the material library has loaded and the geometry load fails, the
  pipeline ends in Failed: with the message
  "Failed to load 3D model. Please check if model files exist in the correct location."
  when the texture had loaded, and with "Failed to load 3D model without texture." when
  the texture had failed. Every Failed message of the pipeline is one of the five
  messages the component passes to \<^verbatim>\<open>setError\<close>.
\<close>

theorem geometry_failure_message:
  "(mountCurrent env \<and> \<not> initThrows env \<and> textureResult env = OnLoad texture
      \<and> mtlResult env = OnLoad lib \<and> objResult env (Some lib) = OnError
    \<longrightarrow> loadState (run env) = Failed
          ''Failed to load 3D model. Please check if model files exist in the correct location.'')
   \<and> (mountCurrent env \<and> \<not> initThrows env \<and> textureResult env = OnError
      \<and> mtlResult env = OnLoad lib \<and> objResult env (Some lib) = OnError
    \<longrightarrow> loadState (run env) = Failed ''Failed to load 3D model without texture.'')
   \<and> (loadState (run env) = Failed message \<longrightarrow> message \<in> set errorMessages)"
proof (intro conjI impI)
  assume "mountCurrent env \<and> \<not> initThrows env \<and> textureResult env = OnLoad texture
      \<and> mtlResult env = OnLoad lib \<and> objResult env (Some lib) = OnError"
  then have "run env = objErrorMain
      (load ''capsule.obj'' (load ''capsule.mtl'' (load ''capsule0.jpg'' (mounted env))))"
    by (simp add: run_main_objError)
  then show "loadState (run env) = Failed
      ''Failed to load 3D model. Please check if model files exist in the correct location.''"
    by (simp add: loadState_Failed error_fields)
next
  assume "mountCurrent env \<and> \<not> initThrows env \<and> textureResult env = OnError
      \<and> mtlResult env = OnLoad lib \<and> objResult env (Some lib) = OnError"
  then have "run env = objErrorNoTexture
      (load ''capsule.obj'' (load ''capsule.mtl'' (load ''capsule0.jpg'' (mounted env))))"
    by (simp add: run_noTexture_objError)
  then show "loadState (run env) = Failed ''Failed to load 3D model without texture.''"
    by (simp add: loadState_Failed error_fields)
next
  assume "loadState (run env) = Failed message"
  then have "error (run env) = Some message"
    by (simp add: loadState_def split: option.splits if_splits)
  with error_run [of env] show "message \<in> set errorMessages"
    by auto
qed

theorem geometry_failure_message_witness:
  "loadState (run (exampleEnv (OnLoad (Texture 0)) (OnLoad exampleLibrary) OnError))
     = Failed ''Failed to load 3D model. Please check if model files exist in the correct location.''
   \<and> loadState (run (exampleEnv OnError (OnLoad exampleLibrary) OnError))
     = Failed ''Failed to load 3D model without texture.''
   \<and> ''Failed to load 3D model without texture.'' \<in> set errorMessages"
proof -
  have 1: "loadState (run (exampleEnv (OnLoad (Texture 0)) (OnLoad exampleLibrary) OnError))
     = Failed ''Failed to load 3D model. Please check if model files exist in the correct location.''"
    using geometry_failure_message
      [of "exampleEnv (OnLoad (Texture 0)) (OnLoad exampleLibrary) OnError" "Texture 0"
          exampleLibrary]
    by (simp add: exampleEnv_def)
  have 2: "loadState (run (exampleEnv OnError (OnLoad exampleLibrary) OnError))
     = Failed ''Failed to load 3D model without texture.''"
    using geometry_failure_message
      [of "exampleEnv OnError (OnLoad exampleLibrary) OnError" _ exampleLibrary]
    by (simp add: exampleEnv_def)
  from 2 geometry_failure_message
      [of "exampleEnv OnError (OnLoad exampleLibrary) OnError" _ _
          "''Failed to load 3D model without texture.''"]
  have 3: "''Failed to load 3D model without texture.'' \<in> set errorMessages"
    by blast
  from 1 2 3 show ?thesis by blast
qed

text \<open>
  C5 as stated fails: the message after a failed geometry load on the primary path is
  not "model load error".
\<close>

theorem geometry_failure_other_message:
  "loadState (run (exampleEnv (OnLoad (Texture 0)) (OnLoad exampleLibrary) OnError))
     \<noteq> Failed ''model load error''"
  by (simp add: eval_defs example_defs)

section \<open>The scene after a failed load\<close>

text \<open>
  C9 (as amended). When the material load and the geometry load of the fallback both
  fail (and the texture fetch has completed), the state is Failed and the scene holds
  what the initialisation put there and nothing else: the grid and axis helpers, the
  three lights and the test cube, on the background colour. The pipeline has added
  nothing.
\<close>

theorem failed_load_scene:
  "mountCurrent env \<and> \<not> initThrows env \<and> textureResult env \<noteq> NoCallback
      \<and> mtlResult env = OnError \<and> objResult env None = OnError
    \<longrightarrow> (loadState (run env) = Failed ''Failed to load model with or without materials.''
          \<or> loadState (run env) = Failed ''Failed to load materials and texture.'')
        \<and> scene (run env) = initScene
        \<and> background (run env) = Some 1184274
        \<and> sceneModels (run env) = []"
proof
  assume a: "mountCurrent env \<and> \<not> initThrows env \<and> textureResult env \<noteq> NoCallback
      \<and> mtlResult env = OnError \<and> objResult env None = OnError"
  show "(loadState (run env) = Failed ''Failed to load model with or without materials.''
          \<or> loadState (run env) = Failed ''Failed to load materials and texture.'')
        \<and> scene (run env) = initScene
        \<and> background (run env) = Some 1184274
        \<and> sceneModels (run env) = []"
  proof (cases "textureResult env")
    case (OnLoad texture)
    with a have r: "run env = objErrorFallback
        (load ''capsule.obj'' (load ''capsule.mtl'' (load ''capsule0.jpg'' (mounted env))))"
      by (simp add: run_fallback_objError)
    show ?thesis
      by (simp add: r loadState_Failed error_fields error_callback_fields load_fields
          mounted_fields sceneModels_def initScene_def)
  next
    case OnError
    with a have r: "run env
        = mtlErrorNoTexture (load ''capsule.mtl'' (load ''capsule0.jpg'' (mounted env)))"
      by (simp add: run_noTexture_mtlError)
    show ?thesis
      by (simp add: r loadState_Failed error_fields error_callback_fields load_fields
          mounted_fields sceneModels_def initScene_def)
  next
    case NoCallback
    with a show ?thesis by simp
  qed
qed

theorem failed_load_scene_witness:
  "loadState (run (exampleEnv (OnLoad (Texture 0)) OnError OnError))
       = Failed ''Failed to load model with or without materials.''
   \<and> scene (run (exampleEnv (OnLoad (Texture 0)) OnError OnError)) = initScene
   \<and> sceneModels (run (exampleEnv (OnLoad (Texture 0)) OnError OnError)) = []"
proof -
  have 1: "loadState (run (exampleEnv (OnLoad (Texture 0)) OnError OnError))
       \<noteq> Failed ''Failed to load materials and texture.''"
    by (simp add: eval_defs example_defs)
  show ?thesis
    using failed_load_scene [of "exampleEnv (OnLoad (Texture 0)) OnError OnError"] 1
    by (simp add: exampleEnv_def)
qed

text \<open>
  C9 as stated fails: after the failure the scene holds, besides helpers and lights,
  the test cube of the initialisation, which is not default content.
\<close>

theorem failed_load_scene_has_test_cube:
  "scene (run (exampleEnv (OnLoad (Texture 0)) OnError OnError))
     = [GridHelper 10 10, AxesHelper 5, AmbientLight 16777215 (7 / 10),
        DirectionalLight 16777215 1 (Vector3 1 1 1),
        PointLight 16777215 1 100 (Vector3 0 5 0),
        BoxMesh (Vector3 1 1 1) (ViewerMaterial 0) (Vector3 0 0 0)]
   \<and> \<not> list_all isDefaultContent (scene (run (exampleEnv (OnLoad (Texture 0)) OnError OnError)))"
  by (simp add: eval_defs example_defs isDefaultContent_def)

section \<open>The loading flag\<close>

text \<open>
  C10. Every terminal callback of the pipeline sets the loading flag to false: the three
  success callbacks of the geometry load, the four terminal error callbacks and the
  handler of an initialisation error. So whenever the component is mounted and every
  fetch it issues completes, the run ends with the flag false.
\<close>

theorem terminal_callbacks_clear_loading:
  "loading (objLoadedMain env texture object w) = False
   \<and> loading (objLoadedFallback env texture object w) = False
   \<and> loading (objLoadedNoTexture env object w) = False
   \<and> loading (objErrorMain w) = False
   \<and> loading (objErrorFallback w) = False
   \<and> loading (objErrorNoTexture w) = False
   \<and> loading (mtlErrorNoTexture w) = False
   \<and> loading (initCatch w) = False
   \<and> (mountCurrent env \<and> textureResult env \<noteq> NoCallback \<and> mtlResult env \<noteq> NoCallback
        \<and> objResult env None \<noteq> NoCallback \<and> (\<forall>lib. objResult env (Some lib) \<noteq> NoCallback)
      \<longrightarrow> loading (run env) = False \<and> loadState (run env) \<noteq> Loading)"
proof -
  have callbacks:
    "loading (objErrorMain w) = False" "loading (objErrorFallback w) = False"
    "loading (objErrorNoTexture w) = False" "loading (mtlErrorNoTexture w) = False"
    "loading (initCatch w) = False" for w
    by (simp_all add: objErrorMain_def objErrorFallback_def objErrorNoTexture_def
        mtlErrorNoTexture_def initCatch_def)
  have run: "loading (run env) = False"
    if "mountCurrent env" "textureResult env \<noteq> NoCallback" "mtlResult env \<noteq> NoCallback"
      "objResult env None \<noteq> NoCallback" "\<forall>lib. objResult env (Some lib) \<noteq> NoCallback"
    using that
    by (simp add: run_unfold textureLoad_def textureError_def textureLoaded_def
        mtlLoadedNoTexture_def mtlLoadedMain_def mtlErrorMain_def callbacks
        objLoadedNoTexture_fields objLoadedMain_fields objLoadedFallback_fields
        split: Outcome.splits)
  have state: "loadState (run env) \<noteq> Loading" if "loading (run env) = False"
  proof -
    have "modelMetadata (run env) \<noteq> None \<or> error (run env) \<noteq> None \<or> loading (run env)"
      by (simp add: run_unfold textureLoad_def textureError_def textureLoaded_def
        mtlLoadedNoTexture_def mtlLoadedMain_def mtlErrorMain_def callbacks
        objLoadedNoTexture_fields objLoadedMain_fields objLoadedFallback_fields
        error_fields load_fields initialWorld_fields mounted_fields modelMetadata_loaded
        split: Outcome.splits)
    with that show ?thesis
      by (auto simp: loadState_def split: option.splits)
  qed
  show ?thesis
    using run state
    by (simp add: callbacks objLoadedNoTexture_fields objLoadedMain_fields
        objLoadedFallback_fields)
qed

theorem terminal_callbacks_clear_loading_witness:
  "loading (run (exampleEnv OnError (OnLoad exampleLibrary) OnError)) = False
   \<and> loadState (run (exampleEnv OnError (OnLoad exampleLibrary) OnError)) \<noteq> Loading"
  using terminal_callbacks_clear_loading
    [of "exampleEnv OnError (OnLoad exampleLibrary) OnError"]
  by (simp add: exampleEnv_def)


section \<open>Face count\<close>

lemma faceSources_Object3D:
  "faceSources (Object3D k p cs) =
     (case faceSource (Object3D k p cs) of Some n \<Rightarrow> [n] | None \<Rightarrow> [])
     @ concat (map faceSources cs)"
  by (simp add: faceSources_def [abs_def] concat_map_concat comp_def)

lemma faceSource_kind: "kind a = kind b \<Longrightarrow> faceSource a = faceSource b"
  by (simp add: faceSource_def)

lemma faceSources_assignMaterial:
  "faceSources (fst (assignMaterial mat object heap)) = faceSources object"
  and faceSources_assignMaterials:
  "concat (map faceSources (fst (assignMaterials mat cs heap))) = concat (map faceSources cs)"
proof (induction mat object heap and mat cs heap rule: assignMaterial_assignMaterials.induct)
  case (1 mat k p cs heap)
  show ?case
  proof (cases k)
    case (Mesh g m)
    with 1(1) [OF Mesh] show ?thesis
      by (auto simp: faceSources_Object3D faceSource_def split: prod.splits)
  next
    case NotMesh
    with 1(2) [OF NotMesh] show ?thesis
      by (auto simp: faceSources_Object3D faceSource_def split: prod.splits)
  qed
next
  case (2 mat heap)
  then show ?case by simp
next
  case (3 mat c cs heap)
  obtain c' heap' where c: "assignMaterial mat c heap = (c', heap')"
    by (cases "assignMaterial mat c heap")
  obtain cs' heap'' where cs: "assignMaterials mat cs heap' = (cs', heap'')"
    by (cases "assignMaterials mat cs heap'")
  from 3(1) c have 1: "faceSources c' = faceSources c" by simp
  from 3(2) [OF c [symmetric]] cs have 2: "concat (map faceSources cs') = concat (map faceSources cs)"
    by simp
  show ?case by (simp add: c cs 1 2)
qed

lemma faceSources_centerObject: "faceSources (centerObject center object) = faceSources object"
  by (cases object) (simp add: centerObject_def faceSources_Object3D faceSource_def)

lemma countFaces_assignMaterial:
  "countFaces (fst (assignMaterial mat (centerObject center object) heap)) = countFaces object"
  by (simp add: countFaces_faceSources faceSources_assignMaterial faceSources_centerObject)

lemma faces_loaded:
  "map_option faces (modelMetadata (objLoadedMain env texture object w)) = Some (countFaces object)"
  "map_option faces (modelMetadata (objLoadedFallback env texture object w))
     = Some (countFaces object)"
  "map_option faces (modelMetadata (objLoadedNoTexture env object w)) = Some (countFaces object)"
proof -
  have a: "countFaces object' = countFaces object"
    if "assignMaterial mat (centerObject center object) heap = (object', heap')"
    for mat center heap object' heap'
    using countFaces_assignMaterial [of mat center object heap] that by simp
  show "map_option faces (modelMetadata (objLoadedMain env texture object w))
      = Some (countFaces object)"
    by (simp add: objLoadedMain_def Let_def a split: prod.splits)
  show "map_option faces (modelMetadata (objLoadedFallback env texture object w))
      = Some (countFaces object)"
    by (simp add: objLoadedFallback_def Let_def a split: prod.splits)
  show "map_option faces (modelMetadata (objLoadedNoTexture env object w))
      = Some (countFaces object)"
    by (simp add: objLoadedNoTexture_def Let_def countFaces_faceSources faceSources_centerObject)
qed

lemma countFaces_single:
  assumes "faceSources object = [n]"
  shows "countFaces object = divDouble (real n) 3"
  by (simp add: countFaces_faceSources assms addDouble_zero_divDouble)

text \<open>
  C4 (as amended). On every successful path the reported face count is \<open>countFaces\<close> of
  the loaded node: starting from 0 it adds, for the sub-meshes in traversal order and in
  double-precision arithmetic, the length of the index buffer divided by 3 when the
  sub-mesh has an index buffer, else the number of vertex positions divided by 3.
  Nothing is truncated: a node whose only contributing sub-mesh has a count that is not
  a multiple of 3 (below \<open>2 ^ 51\<close>) has a face count that is the rounded quotient and not
  a whole number. The face count is never negative, and when each of the counts is a
  multiple of 3 it is the whole number obtained by summing the integer quotients (as
  long as that is below \<open>2 ^ 53\<close>).
\<close>

theorem countFaces_double_sum:
  "(mountCurrent env \<and> \<not> initThrows env \<and> textureResult env = OnLoad texture
      \<and> mtlResult env = OnLoad lib \<and> objResult env (Some lib) = OnLoad loaded
    \<longrightarrow> (\<exists>md. loadState (run env) = Ready md \<and> faces md = countFaces loaded))
   \<and> (mountCurrent env \<and> \<not> initThrows env \<and> textureResult env = OnLoad texture
      \<and> mtlResult env = OnError \<and> objResult env None = OnLoad loaded
    \<longrightarrow> (\<exists>md. loadState (run env) = Ready md \<and> faces md = countFaces loaded))
   \<and> (mountCurrent env \<and> \<not> initThrows env \<and> textureResult env = OnError
      \<and> mtlResult env = OnLoad lib \<and> objResult env (Some lib) = OnLoad loaded
    \<longrightarrow> (\<exists>md. loadState (run env) = Ready md \<and> faces md = countFaces loaded))
   \<and> countFaces object
       = fold (\<lambda>n count. addDouble count (divDouble (real n) 3)) (faceSources object) 0
   \<and> 0 \<le> countFaces object
   \<and> (list_all (\<lambda>n. 3 dvd n) (faceSources object)
        \<and> (\<Sum>n\<leftarrow>faceSources object. n div 3) < 2 ^ 53
      \<longrightarrow> countFaces object = real (\<Sum>n\<leftarrow>faceSources object. n div 3))
   \<and> (faceSources object = [k] \<and> \<not> 3 dvd k \<and> k < 2 ^ 51
      \<longrightarrow> countFaces object = divDouble (real k) 3 \<and> countFaces object \<notin> \<int>)"
proof -
  let ?w = "load ''capsule.obj'' (load ''capsule.mtl'' (load ''capsule0.jpg'' (mounted env)))"
  have main: "\<exists>md. loadState (run env) = Ready md \<and> faces md = countFaces loaded"
    if a: "mountCurrent env \<and> \<not> initThrows env \<and> textureResult env = OnLoad texture
      \<and> mtlResult env = OnLoad lib \<and> objResult env (Some lib) = OnLoad loaded"
  proof -
    from a have r: "run env = objLoadedMain env texture loaded ?w"
      by (simp add: run_main)
    obtain md where md: "modelMetadata (objLoadedMain env texture loaded ?w) = Some md"
      using modelMetadata_loaded(1) by blast
    have "loadState (run env) = Ready md"
      by (rule loadState_Ready) (simp_all add: r md objLoadedMain_fields load_fields mounted_fields)
    moreover have "faces md = countFaces loaded"
      using faces_loaded(1) [of env texture loaded ?w] by (simp add: md)
    ultimately show ?thesis by blast
  qed
  have fallback: "\<exists>md. loadState (run env) = Ready md \<and> faces md = countFaces loaded"
    if a: "mountCurrent env \<and> \<not> initThrows env \<and> textureResult env = OnLoad texture
      \<and> mtlResult env = OnError \<and> objResult env None = OnLoad loaded"
  proof -
    from a have r: "run env = objLoadedFallback env texture loaded ?w"
      by (simp add: run_fallback)
    obtain md where md: "modelMetadata (objLoadedFallback env texture loaded ?w) = Some md"
      using modelMetadata_loaded(2) by blast
    have "loadState (run env) = Ready md"
      by (rule loadState_Ready)
        (simp_all add: r md objLoadedFallback_fields load_fields mounted_fields)
    moreover have "faces md = countFaces loaded"
      using faces_loaded(2) [of env texture loaded ?w] by (simp add: md)
    ultimately show ?thesis by blast
  qed
  have noTexture: "\<exists>md. loadState (run env) = Ready md \<and> faces md = countFaces loaded"
    if a: "mountCurrent env \<and> \<not> initThrows env \<and> textureResult env = OnError
      \<and> mtlResult env = OnLoad lib \<and> objResult env (Some lib) = OnLoad loaded"
  proof -
    from a have r: "run env = objLoadedNoTexture env loaded ?w"
      by (simp add: run_noTexture)
    obtain md where md: "modelMetadata (objLoadedNoTexture env loaded ?w) = Some md"
      using modelMetadata_loaded(3) by blast
    have "loadState (run env) = Ready md"
      by (rule loadState_Ready)
        (simp_all add: r md objLoadedNoTexture_fields load_fields mounted_fields)
    moreover have "faces md = countFaces loaded"
      using faces_loaded(3) [of env loaded ?w] by (simp add: md)
    ultimately show ?thesis by blast
  qed
  have nonneg: "0 \<le> countFaces object"
    by (simp add: countFaces_faceSources fold_faces_nonneg)
  have exact: "countFaces object = real (\<Sum>n\<leftarrow>faceSources object. n div 3)"
    if "list_all (\<lambda>n. 3 dvd n) (faceSources object)
        \<and> (\<Sum>n\<leftarrow>faceSources object. n div 3) < 2 ^ 53"
    using that fold_faces_exact [of "faceSources object" 0]
    by (simp add: countFaces_faceSources)
  have single: "countFaces object = divDouble (real k) 3" "countFaces object \<notin> \<int>"
    if "faceSources object = [k] \<and> \<not> 3 dvd k \<and> k < 2 ^ 51"
    using that countFaces_single [of object k] divDouble_3_not_int [of k] by simp_all
  have c1: "mountCurrent env \<and> \<not> initThrows env \<and> textureResult env = OnLoad texture
      \<and> mtlResult env = OnLoad lib \<and> objResult env (Some lib) = OnLoad loaded
    \<longrightarrow> (\<exists>md. loadState (run env) = Ready md \<and> faces md = countFaces loaded)"
    using main by blast
  have c2: "mountCurrent env \<and> \<not> initThrows env \<and> textureResult env = OnLoad texture
      \<and> mtlResult env = OnError \<and> objResult env None = OnLoad loaded
    \<longrightarrow> (\<exists>md. loadState (run env) = Ready md \<and> faces md = countFaces loaded)"
    using fallback by blast
  have c3: "mountCurrent env \<and> \<not> initThrows env \<and> textureResult env = OnError
      \<and> mtlResult env = OnLoad lib \<and> objResult env (Some lib) = OnLoad loaded
    \<longrightarrow> (\<exists>md. loadState (run env) = Ready md \<and> faces md = countFaces loaded)"
    using noTexture by blast
  have c4: "list_all (\<lambda>n. 3 dvd n) (faceSources object)
        \<and> (\<Sum>n\<leftarrow>faceSources object. n div 3) < 2 ^ 53
      \<longrightarrow> countFaces object = real (\<Sum>n\<leftarrow>faceSources object. n div 3)"
    using exact by blast
  have c5: "faceSources object = [k] \<and> \<not> 3 dvd k \<and> k < 2 ^ 51
      \<longrightarrow> countFaces object = divDouble (real k) 3 \<and> countFaces object \<notin> \<int>"
    using single by blast
  show ?thesis
    by (intro conjI c1 c2 c3 c4 c5 nonneg countFaces_faceSources)
qed

theorem countFaces_double_sum_witness:
  "(\<exists>md. loadState (run (exampleEnv OnError (OnLoad exampleLibrary) (OnLoad cubeObject)))
          = Ready md \<and> faces md = 12)
   \<and> countFaces cubeObject = 12
   \<and> countFaces oddMesh = divDouble 4 3
   \<and> countFaces oddMesh \<notin> \<int>"
proof -
  have s: "faceSources cubeObject = [36]" "faceSources oddMesh = [4]"
    by (simp_all add: faceSources_def faceSource_def cubeObject_def cubeMesh_def oddMesh_def)
  have "list_all (\<lambda>n. 3 dvd n) (faceSources cubeObject)
        \<and> (\<Sum>n\<leftarrow>faceSources cubeObject. n div 3) < 2 ^ 53
      \<longrightarrow> countFaces cubeObject = real (\<Sum>n\<leftarrow>faceSources cubeObject. n div 3)"
    using countFaces_double_sum
      [of "exampleEnv OnError (OnLoad exampleLibrary) (OnLoad cubeObject)" "Texture 0"
          exampleLibrary cubeObject cubeObject 4]
    by blast
  then have 1: "countFaces cubeObject = 12"
    by (simp add: s)
  define E where "E = exampleEnv OnError (OnLoad exampleLibrary) (OnLoad cubeObject)"
  have "mountCurrent E \<and> \<not> initThrows E \<and> textureResult E = OnError
      \<and> mtlResult E = OnLoad exampleLibrary \<and> objResult E (Some exampleLibrary) = OnLoad cubeObject
    \<longrightarrow> (\<exists>md. loadState (run E) = Ready md \<and> faces md = countFaces cubeObject)"
    using countFaces_double_sum [of E "Texture 0" exampleLibrary cubeObject cubeObject 4]
    by blast
  moreover have "mountCurrent E \<and> \<not> initThrows E \<and> textureResult E = OnError
      \<and> mtlResult E = OnLoad exampleLibrary \<and> objResult E (Some exampleLibrary) = OnLoad cubeObject"
    by (simp add: E_def exampleEnv_def)
  ultimately have 2: "\<exists>md. loadState (run (exampleEnv OnError (OnLoad exampleLibrary) (OnLoad cubeObject)))
          = Ready md \<and> faces md = countFaces cubeObject"
    unfolding E_def by blast
  have "faceSources oddMesh = [4] \<and> \<not> 3 dvd (4 :: nat) \<and> (4 :: nat) < 2 ^ 51
      \<longrightarrow> countFaces oddMesh = divDouble (real (4 :: nat)) 3 \<and> countFaces oddMesh \<notin> \<int>"
    using countFaces_double_sum
      [of "exampleEnv OnError (OnLoad exampleLibrary) (OnLoad cubeObject)" "Texture 0"
          exampleLibrary cubeObject oddMesh 4]
    by blast
  moreover have "faceSources oddMesh = [4] \<and> \<not> 3 dvd (4 :: nat) \<and> (4 :: nat) < 2 ^ 51"
    by (simp add: s)
  ultimately have "countFaces oddMesh = divDouble (real (4 :: nat)) 3 \<and> countFaces oddMesh \<notin> \<int>"
    by blast
  then have 3: "countFaces oddMesh = divDouble 4 3 \<and> countFaces oddMesh \<notin> \<int>"
    unfolding of_nat_numeral .
  have 4: "\<exists>md. loadState (run (exampleEnv OnError (OnLoad exampleLibrary) (OnLoad cubeObject)))
          = Ready md \<and> faces md = 12"
    using 2 unfolding 1 .
  from 1 3 4 show ?thesis by blast
qed

text \<open>
  C4 as stated fails: a sub-mesh without index and with 4 vertex positions contributes
  the double nearest to 4/3 (1.3333333333333333), not the integer 1, and that is the
  face count the load reports.
\<close>

theorem countFaces_not_truncated:
  "countFaces oddMesh = 6004799503160661 / 4503599627370496
   \<and> countFaces oddMesh \<noteq> real (4 div 3)
   \<and> countFaces oddMesh \<notin> \<int>
   \<and> map_option faces (modelMetadata
       (run (exampleEnv (OnLoad (Texture 0)) (OnLoad exampleLibrary) (OnLoad oddMesh))))
     = Some (6004799503160661 / 4503599627370496)"
proof -
  have s: "faceSources oddMesh = [4]"
    by (simp add: faceSources_def faceSource_def oddMesh_def)
  have d: "divDouble 4 3 = 6004799503160661 / 4503599627370496"
    by (simp add: divDouble_def roundDouble_four_thirds)
  have 1: "countFaces oddMesh = 6004799503160661 / 4503599627370496"
    using countFaces_single [of oddMesh 4] by (simp add: s d)
  have 2: "countFaces oddMesh \<notin> \<int>"
    using countFaces_single [of oddMesh 4] divDouble_3_not_int [of 4] by (simp add: s)
  have 3: "(6004799503160661 / 4503599627370496 :: real) \<noteq> real (4 div 3)"
    by simp
  have r: "run (exampleEnv (OnLoad (Texture 0)) (OnLoad exampleLibrary) (OnLoad oddMesh))
      = objLoadedMain (exampleEnv (OnLoad (Texture 0)) (OnLoad exampleLibrary) (OnLoad oddMesh))
          (Texture 0) oddMesh
          (load ''capsule.obj'' (load ''capsule.mtl'' (load ''capsule0.jpg''
             (mounted (exampleEnv (OnLoad (Texture 0)) (OnLoad exampleLibrary) (OnLoad oddMesh))))))"
    by (rule run_main) (simp_all add: exampleEnv_def)
  have 4: "map_option faces (modelMetadata
       (run (exampleEnv (OnLoad (Texture 0)) (OnLoad exampleLibrary) (OnLoad oddMesh))))
     = Some (6004799503160661 / 4503599627370496)"
    by (simp only: r faces_loaded 1)
  from 1 2 3 4 show ?thesis
    by (simp only: simp_thms)
qed

text \<open>
  In double precision the sum of quotients is not the exact sum: six sub-meshes of one
  vertex position each give \<open>2 - 2 ^ - 52\<close> (1.9999999999999998), as in JavaScript.
\<close>

lemma countFaces_sixPoints: "countFaces sixPoints = 9007199254740991 / 4503599627370496"
proof -
  have s: "faceSources sixPoints = [1, 1, 1, 1, 1, 1]"
    by (simp add: faceSources_def sixPoints_def faceSource_def numeral_eq_Suc)
  have t: "divDouble 1 3 = 6004799503160661 / 18014398509481984"
    by (simp add: divDouble_def roundDouble_one_third)
  have 1: "addDouble 0 (6004799503160661 / 18014398509481984) = 6004799503160661 / 18014398509481984"
    unfolding addDouble_def
    using roundDouble_eval [of "- 2" "0 + 6004799503160661 / 18014398509481984"]
    by (simp add: roundHalfEven_def)
  have 2: "addDouble (6004799503160661 / 18014398509481984) (6004799503160661 / 18014398509481984)
      = 6004799503160661 / 9007199254740992"
    unfolding addDouble_def
    using roundDouble_eval [of "- 1" "6004799503160661 / 18014398509481984 + 6004799503160661 / 18014398509481984"]
    by (simp add: roundHalfEven_def)
  have 3: "addDouble (6004799503160661 / 9007199254740992) (6004799503160661 / 18014398509481984) = 1"
    unfolding addDouble_def
    using roundDouble_eval [of "- 1" "6004799503160661 / 9007199254740992 + 6004799503160661 / 18014398509481984"]
    by (simp add: roundHalfEven_def)
  have 4: "addDouble 1 (6004799503160661 / 18014398509481984) = 6004799503160661 / 4503599627370496"
    unfolding addDouble_def
    using roundDouble_eval [of 0 "1 + 6004799503160661 / 18014398509481984"]
    by (simp add: roundHalfEven_def)
  have 5: "addDouble (6004799503160661 / 4503599627370496) (6004799503160661 / 18014398509481984)
      = 3752999689475413 / 2251799813685248"
    unfolding addDouble_def
    using roundDouble_eval [of 0 "6004799503160661 / 4503599627370496 + 6004799503160661 / 18014398509481984"]
    by (simp add: roundHalfEven_def)
  have 6: "addDouble (3752999689475413 / 2251799813685248) (6004799503160661 / 18014398509481984)
      = 9007199254740991 / 4503599627370496"
    unfolding addDouble_def
    using roundDouble_eval [of 0 "3752999689475413 / 2251799813685248 + 6004799503160661 / 18014398509481984"]
    by (simp add: roundHalfEven_def)
  show ?thesis
    by (simp add: countFaces_faceSources s t 1 2 3 4 5 6)
qed

section \<open>Camera distance\<close>

lemma half_fov_range:
  assumes "0 < f * (pi / 180)" "f * (pi / 180) < pi"
  shows "0 < f * (pi / 180) / 2" "f * (pi / 180) / 2 < pi / 2" "0 < sin (f * (pi / 180) / 2)"
proof -
  show 1: "0 < f * (pi / 180) / 2" using assms by simp
  show 2: "f * (pi / 180) / 2 < pi / 2" using assms by simp
  from 1 2 show "0 < sin (f * (pi / 180) / 2)"
    by (rule sin_gt_zero2)
qed

lemma abs_double_less: "0 < a \<Longrightarrow> a < b \<Longrightarrow> \<bar>a\<bar> * 2 < \<bar>b\<bar> * (2 :: real)"
  by simp

text \<open>
  C8. For a field of view that is, in radians, between 0 and \<open>\<pi>\<close>, the camera distance
  grows strictly with the largest extent (over positive extents); and for a positive
  largest extent it falls strictly as the field of view grows between 0 and \<open>\<pi>\<close>.
  (The second argument of \<open>cameraZ\<close> is the field of view in degrees, as the camera
  stores it; the conditions are on its value in radians.)
\<close>

theorem cameraZ_monotone:
  "(0 < f * (pi / 180) \<and> f * (pi / 180) < pi \<and> 0 < m1 \<and> m1 < m2
      \<longrightarrow> cameraZ m1 f < cameraZ m2 f)
   \<and> (0 < m \<and> 0 < f1 * (pi / 180) \<and> f1 < f2 \<and> f2 * (pi / 180) < pi
      \<longrightarrow> cameraZ m f2 < cameraZ m f1)"
proof (intro conjI impI)
  assume a: "0 < f * (pi / 180) \<and> f * (pi / 180) < pi \<and> 0 < m1 \<and> m1 < m2"
  define s where "s = sin (f * (pi / 180) / 2)"
  have s: "0 < s"
    unfolding s_def using a by (intro half_fov_range(3)) blast+
  have z: "cameraZ x f = \<bar>x / s\<bar> * 2" for x
    by (simp add: cameraZ_def Let_def s_def)
  from a s have lt: "m1 / s < m2 / s"
    by (simp add: divide_strict_right_mono)
  from a s have pos: "0 < m1 / s"
    by simp
  show "cameraZ m1 f < cameraZ m2 f"
    unfolding z using pos lt by (rule abs_double_less)
next
  assume a: "0 < m \<and> 0 < f1 * (pi / 180) \<and> f1 < f2 \<and> f2 * (pi / 180) < pi"
  define h1 where "h1 = f1 * (pi / 180) / 2"
  define h2 where "h2 = f2 * (pi / 180) / 2"
  from a have lt: "h1 < h2"
    by (simp add: h1_def h2_def)
  from a have r1: "0 < f1 * (pi / 180)" "f1 * (pi / 180) < pi"
    by (simp_all add: less_trans [of "f1 * pi" "f2 * pi" "pi * 180"])
  from a have r2: "0 < f2 * (pi / 180)" "f2 * (pi / 180) < pi"
    by (simp_all add: less_trans [of 0 "f1 * pi" "f2 * pi"] mult_pos_pos zero_less_mult_iff)
  have s1: "0 < sin h1" and s2: "0 < sin h2"
    unfolding h1_def h2_def using r1 r2 by (blast intro: half_fov_range(3))+
  have b1: "0 < h1" and b2: "h2 < pi / 2"
    unfolding h1_def h2_def using half_fov_range(1) [OF r1] half_fov_range(2) [OF r2]
    by blast+
  have "sin h1 < sin h2"
  proof (rule sin_monotone_2pi)
    show "- (pi / 2) \<le> h1" using b1 pi_gt_zero by linarith
    show "h1 < h2" by (rule lt)
    show "h2 \<le> pi / 2" using b2 by linarith
  qed
  with a s1 have less: "m / sin h2 < m / sin h1"
    by (simp add: divide_strict_left_mono)
  from a s2 have pos: "0 < m / sin h2"
    by simp
  have z: "cameraZ m f1 = \<bar>m / sin h1\<bar> * 2" "cameraZ m f2 = \<bar>m / sin h2\<bar> * 2"
    by (simp_all add: cameraZ_def Let_def h1_def h2_def)
  show "cameraZ m f2 < cameraZ m f1"
    unfolding z using pos less by (rule abs_double_less)
qed

theorem cameraZ_monotone_witness:
  "cameraZ 1 75 < cameraZ 2 75 \<and> cameraZ 2 90 < cameraZ 2 75"
  using cameraZ_monotone [of 75 1 2] cameraZ_monotone [of _ _ _ 2 75 90]
  by simp


section \<open>Camera framing\<close>

lemma getSize_nonneg:
  "0 \<le> vx (getSize box)" "0 \<le> vy (getSize box)" "0 \<le> vz (getSize box)"
  by (simp_all add: getSize_def isEmpty_def sub_def)

lemma cameraZ_75:
  "0 \<le> maxDim \<Longrightarrow> cameraZ maxDim 75 = maxDim / sin (75 * (pi / 180) / 2) * 2"
proof -
  assume m: "0 \<le> maxDim"
  have "0 < sin (75 * (pi / 180) / 2)"
    by (rule half_fov_range(3)) simp_all
  with m have "0 \<le> maxDim / sin (75 * (pi / 180) / 2)"
    by simp
  then have "\<bar>maxDim / sin (75 * (pi / 180) / 2)\<bar> = maxDim / sin (75 * (pi / 180) / 2)"
    by (rule abs_of_nonneg)
  then show ?thesis
    by (simp add: cameraZ_def Let_def)
qed

text \<open>
  C6 (as amended). When the texture, the material library and the geometry all load,
  the completion of the load puts the camera at \<open>(0, maxDim / 2, distance)\<close>, where
  \<open>maxDim\<close> is the largest of the extents of the bounding box taken before the
  translation and \<open>distance = (maxDim / sin (fov / 2)) * 2\<close> for the vertical field of
  view of the camera (75 degrees) in radians; the camera looks at the origin, has
  near 0.1 and far 1000, and its projection matrix is the one of these values.
\<close>

theorem camera_framing_full_load:
  "mountCurrent env \<and> \<not> initThrows env \<and> textureResult env = OnLoad texture
     \<and> mtlResult env = OnLoad lib \<and> objResult env (Some lib) = OnLoad object
     \<and> maxDim = max (max (vx (getSize (setFromObject env object)))
                          (vy (getSize (setFromObject env object))))
                     (vz (getSize (setFromObject env object)))
   \<longrightarrow> (\<exists>c. camera (run env) = Some c
          \<and> fov c = 75
          \<and> camPosition c = Vector3 0 (maxDim / 2) (maxDim / sin (fov c * (pi / 180) / 2) * 2)
          \<and> lookAtTarget c = Some (Vector3 0 0 0)
          \<and> near c = 1 / 10 \<and> far c = 1000
          \<and> projection c = (fov c, aspect c, near c, far c))"
proof
  assume a: "mountCurrent env \<and> \<not> initThrows env \<and> textureResult env = OnLoad texture
     \<and> mtlResult env = OnLoad lib \<and> objResult env (Some lib) = OnLoad object
     \<and> maxDim = max (max (vx (getSize (setFromObject env object)))
                          (vy (getSize (setFromObject env object))))
                     (vz (getSize (setFromObject env object)))"
  then have r: "run env = objLoadedMain env texture object
      (load ''capsule.obj'' (load ''capsule.mtl'' (load ''capsule0.jpg'' (mounted env))))"
    by (simp add: run_main)
  from a have "0 \<le> maxDim"
    using getSize_nonneg(1) [of "setFromObject env object"] by (simp add: le_max_iff_disj)
  then have z: "cameraZ maxDim 75 = maxDim / sin (75 * (pi / 180) / 2) * 2"
    by (rule cameraZ_75)
  define c where "c = adjustCamera (getSize (setFromObject env object)) (initialCamera env)"
  have 1: "camera (run env) = Some c"
    by (simp add: c_def r objLoadedMain_fields load_fields mounted_fields)
  have 2: "fov c = 75" "lookAtTarget c = Some (Vector3 0 0 0)" "near c = 1 / 10" "far c = 1000"
    "projection c = (fov c, aspect c, near c, far c)"
    by (simp_all add: c_def adjustCamera_def initialCamera_def updateProjectionMatrix_def Let_def)
  from a have "camPosition c = Vector3 0 (maxDim / 2) (cameraZ maxDim 75)"
    by (simp add: c_def adjustCamera_def initialCamera_def updateProjectionMatrix_def Let_def)
  then have 3: "camPosition c = Vector3 0 (maxDim / 2) (maxDim / sin (fov c * (pi / 180) / 2) * 2)"
    by (simp only: z 2(1))
  from 1 2 3 show "\<exists>c. camera (run env) = Some c
          \<and> fov c = 75
          \<and> camPosition c = Vector3 0 (maxDim / 2) (maxDim / sin (fov c * (pi / 180) / 2) * 2)
          \<and> lookAtTarget c = Some (Vector3 0 0 0)
          \<and> near c = 1 / 10 \<and> far c = 1000
          \<and> projection c = (fov c, aspect c, near c, far c)"
    by blast
qed

theorem camera_framing_full_load_witness:
  "\<exists>c. camera (run (exampleEnv (OnLoad (Texture 0)) (OnLoad exampleLibrary) (OnLoad cubeObject)))
         = Some c
     \<and> camPosition c = Vector3 0 (2 / 2) (2 / sin (75 * (pi / 180) / 2) * 2)
     \<and> lookAtTarget c = Some (Vector3 0 0 0) \<and> near c = 1 / 10 \<and> far c = 1000"
proof -
  have "2 = max (max (vx (getSize cubeBox)) (vy (getSize cubeBox))) (vz (getSize cubeBox))"
    by (simp add: getSize_def isEmpty_def sub_def cubeBox_def)
  with camera_framing_full_load
    [of "exampleEnv (OnLoad (Texture 0)) (OnLoad exampleLibrary) (OnLoad cubeObject)"
        "Texture 0" exampleLibrary cubeObject 2]
  obtain c where
    "camera (run (exampleEnv (OnLoad (Texture 0)) (OnLoad exampleLibrary) (OnLoad cubeObject)))
       = Some c"
    "fov c = 75"
    "camPosition c = Vector3 0 (2 / 2) (2 / sin (fov c * (pi / 180) / 2) * 2)"
    "lookAtTarget c = Some (Vector3 0 0 0)" "near c = 1 / 10" "far c = 1000"
    by (auto simp: exampleEnv_def)
  then show ?thesis
    by (intro exI [of _ c]) simp
qed

text \<open>
  C6 as stated fails: the texture fails, the material library and the geometry load, the
  state is Ready with extents 2 by 2 by 2, and the camera is still where the
  initialisation put it, at \<open>(0, 2, 5)\<close>, not at \<open>(0, 1, distance)\<close>.
\<close>

theorem camera_not_framed_without_texture:
  "loadState (run (exampleEnv OnError (OnLoad exampleLibrary) (OnLoad cubeObject)))
     = Ready \<lparr>vertices = 8, faces = 12, materials = 1,
         dimensions = \<lparr>width = 2, height = 2, depth = 2\<rparr>\<rparr>
   \<and> map_option camPosition
        (camera (run (exampleEnv OnError (OnLoad exampleLibrary) (OnLoad cubeObject))))
     = Some (Vector3 0 2 5)"
  by (simp add: eval_defs example_defs PerspectiveCamera_def updateProjectionMatrix_def)

section \<open>One bounding box per load\<close>

lemma sceneModels_append:
  "sceneModels (w\<lparr>scene := scene w @ items\<rparr>)
     = sceneModels w @ concat (map (\<lambda>item. case item of Model object \<Rightarrow> [object] | _ \<Rightarrow> []) items)"
  by (simp add: sceneModels_def)

lemma sceneModels_mounted: "sceneModels (mounted env) = []"
  by (simp add: sceneModels_def mounted_fields initScene_def)

lemma sceneModels_load: "sceneModels (load url w) = sceneModels w"
  by (simp add: sceneModels_def load_fields)

lemma position_centerObject:
  "position (centerObject center object) = sub (position object) center"
  by (simp add: centerObject_def)

lemma sceneModels_objLoadedMain:
  "map position (sceneModels (objLoadedMain env texture object w))
     = map position (sceneModels w)
       @ [sub (position object) (getCenter (setFromObject env object))]"
proof -
  obtain object' heap' where a:
    "assignMaterial (MeshPhongMaterial (Some texture) None 50 False 1)
       (centerObject (getCenter (setFromObject env object)) object) (materialHeap w)
     = (object', heap')"
    by (cases "assignMaterial (MeshPhongMaterial (Some texture) None 50 False 1)
       (centerObject (getCenter (setFromObject env object)) object) (materialHeap w)")
  have "position object' = sub (position object) (getCenter (setFromObject env object))"
    using position_assignMaterial
      [of "MeshPhongMaterial (Some texture) None 50 False 1"
          "centerObject (getCenter (setFromObject env object)) object" "materialHeap w"]
    by (simp add: a position_centerObject)
  then show ?thesis
    by (simp add: objLoadedMain_def Let_def a sceneModels_def)
qed

lemma sceneModels_objLoadedFallback:
  "map position (sceneModels (objLoadedFallback env texture object w))
     = map position (sceneModels w)
       @ [sub (position object) (getCenter (setFromObject env object))]"
proof -
  obtain object' heap' where a:
    "assignMaterial (MeshPhongMaterial (Some texture) None 50 False 1)
       (centerObject (getCenter (setFromObject env object)) object) (materialHeap w)
     = (object', heap')"
    by (cases "assignMaterial (MeshPhongMaterial (Some texture) None 50 False 1)
       (centerObject (getCenter (setFromObject env object)) object) (materialHeap w)")
  have "position object' = sub (position object) (getCenter (setFromObject env object))"
    using position_assignMaterial
      [of "MeshPhongMaterial (Some texture) None 50 False 1"
          "centerObject (getCenter (setFromObject env object)) object" "materialHeap w"]
    by (simp add: a position_centerObject)
  then show ?thesis
    by (simp add: objLoadedFallback_def Let_def a sceneModels_def)
qed

lemma sceneModels_objLoadedNoTexture:
  "map position (sceneModels (objLoadedNoTexture env object w))
     = map position (sceneModels w)
       @ [sub (position object) (getCenter (setFromObject env object))]"
  by (simp add: objLoadedNoTexture_def Let_def sceneModels_def position_centerObject)

lemma dimensions_loaded:
  "map_option dimensions (modelMetadata (objLoadedMain env texture object w))
     = Some \<lparr>width = vx (getSize (setFromObject env object)),
         height = vy (getSize (setFromObject env object)),
         depth = vz (getSize (setFromObject env object))\<rparr>"
  "map_option dimensions (modelMetadata (objLoadedFallback env texture object w))
     = Some \<lparr>width = vx (getSize (setFromObject env object)),
         height = vy (getSize (setFromObject env object)),
         depth = vz (getSize (setFromObject env object))\<rparr>"
  "map_option dimensions (modelMetadata (objLoadedNoTexture env object w))
     = Some \<lparr>width = vx (getSize (setFromObject env object)),
         height = vy (getSize (setFromObject env object)),
         depth = vz (getSize (setFromObject env object))\<rparr>"
  by (simp_all add: objLoadedMain_def objLoadedFallback_def objLoadedNoTexture_def Let_def
      split: prod.splits)

lemma callbacks_setFromObject:
  assumes "f object = setFromObject env object"
  shows "objLoadedMain (env\<lparr>setFromObject := f\<rparr>) texture object w
           = objLoadedMain env texture object w"
    "objLoadedFallback (env\<lparr>setFromObject := f\<rparr>) texture object w
           = objLoadedFallback env texture object w"
    "objLoadedNoTexture (env\<lparr>setFromObject := f\<rparr>) object w = objLoadedNoTexture env object w"
  using assms
  by (simp_all add: objLoadedMain_def objLoadedFallback_def objLoadedNoTexture_def)

lemma mounted_setFromObject: "mounted (env\<lparr>setFromObject := f\<rparr>) = mounted env"
  by (simp add: mounted_def setupScene_def)

lemma run_setFromObject:
  assumes "\<forall>lib object. objResult env lib = OnLoad object \<longrightarrow> f object = setFromObject env object"
  shows "run (env\<lparr>setFromObject := f\<rparr>) = run env"
  using assms
  by (simp add: run_unfold textureLoad_def textureError_def textureLoaded_def
      mtlLoadedNoTexture_def mtlLoadedMain_def mtlErrorMain_def mounted_setFromObject
      callbacks_setFromObject setupScene_def split: Outcome.splits)

text \<open>
  C7 (as amended). In every successful load the bounding box is computed once, on the
  loaded node before it is translated: the run depends on the bounding-box function only
  through its value at the node the loader delivered. The centre of that box is the
  translation applied to the node and its extents are the dimensions reported in the
  metadata, on all three successful paths; on the path where texture, material library
  and geometry all load, the same extents also give the camera position and distance.
\<close>

theorem bounding_box_snapshot:
  "(mountCurrent env \<and> \<not> initThrows env \<and> textureResult env = OnLoad texture
      \<and> mtlResult env = OnLoad lib \<and> objResult env (Some lib) = OnLoad object
      \<and> box = setFromObject env object
      \<and> maxDim = max (max (vx (getSize box)) (vy (getSize box))) (vz (getSize box))
    \<longrightarrow> map position (sceneModels (run env)) = [sub (position object) (getCenter box)]
        \<and> map_option dimensions (modelMetadata (run env))
            = Some \<lparr>width = vx (getSize box), height = vy (getSize box), depth = vz (getSize box)\<rparr>
        \<and> map_option camPosition (camera (run env))
            = Some (Vector3 0 (maxDim / 2) (cameraZ maxDim 75)))
   \<and> (mountCurrent env \<and> \<not> initThrows env \<and> textureResult env = OnLoad texture
      \<and> mtlResult env = OnError \<and> objResult env None = OnLoad object
      \<and> box = setFromObject env object
    \<longrightarrow> map position (sceneModels (run env)) = [sub (position object) (getCenter box)]
        \<and> map_option dimensions (modelMetadata (run env))
            = Some \<lparr>width = vx (getSize box), height = vy (getSize box), depth = vz (getSize box)\<rparr>)
   \<and> (mountCurrent env \<and> \<not> initThrows env \<and> textureResult env = OnError
      \<and> mtlResult env = OnLoad lib \<and> objResult env (Some lib) = OnLoad object
      \<and> box = setFromObject env object
    \<longrightarrow> map position (sceneModels (run env)) = [sub (position object) (getCenter box)]
        \<and> map_option dimensions (modelMetadata (run env))
            = Some \<lparr>width = vx (getSize box), height = vy (getSize box), depth = vz (getSize box)\<rparr>)
   \<and> ((\<forall>lib' object'. objResult env lib' = OnLoad object'
          \<longrightarrow> f object' = setFromObject env object')
    \<longrightarrow> run (env\<lparr>setFromObject := f\<rparr>) = run env)"
proof (intro conjI impI)
  assume a: "mountCurrent env \<and> \<not> initThrows env \<and> textureResult env = OnLoad texture
      \<and> mtlResult env = OnLoad lib \<and> objResult env (Some lib) = OnLoad object
      \<and> box = setFromObject env object
      \<and> maxDim = max (max (vx (getSize box)) (vy (getSize box))) (vz (getSize box))"
  then have r: "run env = objLoadedMain env texture object
      (load ''capsule.obj'' (load ''capsule.mtl'' (load ''capsule0.jpg'' (mounted env))))"
    by (simp add: run_main)
  from a show "map position (sceneModels (run env)) = [sub (position object) (getCenter box)]"
    by (simp add: r sceneModels_objLoadedMain sceneModels_load sceneModels_mounted)
  from a show "map_option dimensions (modelMetadata (run env))
      = Some \<lparr>width = vx (getSize box), height = vy (getSize box), depth = vz (getSize box)\<rparr>"
    by (simp add: r dimensions_loaded)
  from a show "map_option camPosition (camera (run env))
      = Some (Vector3 0 (maxDim / 2) (cameraZ maxDim 75))"
    by (simp add: r objLoadedMain_fields load_fields mounted_fields adjustCamera_def
        initialCamera_def updateProjectionMatrix_def Let_def)
next
  assume a: "mountCurrent env \<and> \<not> initThrows env \<and> textureResult env = OnLoad texture
      \<and> mtlResult env = OnError \<and> objResult env None = OnLoad object
      \<and> box = setFromObject env object"
  then have r: "run env = objLoadedFallback env texture object
      (load ''capsule.obj'' (load ''capsule.mtl'' (load ''capsule0.jpg'' (mounted env))))"
    by (simp add: run_fallback)
  from a show "map position (sceneModels (run env)) = [sub (position object) (getCenter box)]"
    by (simp add: r sceneModels_objLoadedFallback sceneModels_load sceneModels_mounted)
  from a show "map_option dimensions (modelMetadata (run env))
      = Some \<lparr>width = vx (getSize box), height = vy (getSize box), depth = vz (getSize box)\<rparr>"
    by (simp add: r dimensions_loaded)
next
  assume a: "mountCurrent env \<and> \<not> initThrows env \<and> textureResult env = OnError
      \<and> mtlResult env = OnLoad lib \<and> objResult env (Some lib) = OnLoad object
      \<and> box = setFromObject env object"
  then have r: "run env = objLoadedNoTexture env object
      (load ''capsule.obj'' (load ''capsule.mtl'' (load ''capsule0.jpg'' (mounted env))))"
    by (simp add: run_noTexture)
  from a show "map position (sceneModels (run env)) = [sub (position object) (getCenter box)]"
    by (simp add: r sceneModels_objLoadedNoTexture sceneModels_load sceneModels_mounted)
  from a show "map_option dimensions (modelMetadata (run env))
      = Some \<lparr>width = vx (getSize box), height = vy (getSize box), depth = vz (getSize box)\<rparr>"
    by (simp add: r dimensions_loaded)
next
  assume "\<forall>lib' object'. objResult env lib' = OnLoad object'
          \<longrightarrow> f object' = setFromObject env object'"
  then show "run (env\<lparr>setFromObject := f\<rparr>) = run env"
    by (rule run_setFromObject)
qed


theorem bounding_box_snapshot_witness:
  "map position (sceneModels
       (run (exampleEnv (OnLoad (Texture 0)) (OnLoad exampleLibrary) (OnLoad cubeObject))))
     = [Vector3 (- 1) (- 1) (- 1)]
   \<and> map_option dimensions (modelMetadata
       (run (exampleEnv (OnLoad (Texture 0)) (OnLoad exampleLibrary) (OnLoad cubeObject))))
     = Some \<lparr>width = 2, height = 2, depth = 2\<rparr>
   \<and> map_option camPosition (camera
       (run (exampleEnv (OnLoad (Texture 0)) (OnLoad exampleLibrary) (OnLoad cubeObject))))
     = Some (Vector3 0 1 (cameraZ 2 75))
   \<and> map_option dimensions (modelMetadata
       (run (exampleEnv (OnLoad (Texture 0)) OnError (OnLoad cubeObject))))
     = Some \<lparr>width = 2, height = 2, depth = 2\<rparr>
   \<and> map position (sceneModels
       (run (exampleEnv OnError (OnLoad exampleLibrary) (OnLoad cubeObject))))
     = [Vector3 (- 1) (- 1) (- 1)]
   \<and> run ((exampleEnv (OnLoad (Texture 0)) (OnLoad exampleLibrary) (OnLoad cubeObject))
        \<lparr>setFromObject :=
           (\<lambda>object. if object = cubeObject then cubeBox
                      else Box3 (Vector3 0 0 0) (Vector3 9 9 9))\<rparr>)
     = run (exampleEnv (OnLoad (Texture 0)) (OnLoad exampleLibrary) (OnLoad cubeObject))"
proof -
  have size: "getSize cubeBox = Vector3 2 2 2" and center: "getCenter cubeBox = Vector3 1 1 1"
    by (simp_all add: getSize_def getCenter_def isEmpty_def sub_def cubeBox_def)
  have pos: "sub (position cubeObject) (Vector3 1 1 1) = Vector3 (- 1) (- 1) (- 1)"
    by (simp add: cubeObject_def sub_def)
  show ?thesis
    using bounding_box_snapshot
      [of "exampleEnv (OnLoad (Texture 0)) (OnLoad exampleLibrary) (OnLoad cubeObject)"
          "Texture 0" exampleLibrary cubeObject cubeBox 2
          "\<lambda>object. if object = cubeObject then cubeBox
                     else Box3 (Vector3 0 0 0) (Vector3 9 9 9)"]
      bounding_box_snapshot
      [of "exampleEnv (OnLoad (Texture 0)) OnError (OnLoad cubeObject)"
          "Texture 0" exampleLibrary cubeObject cubeBox 2 "\<lambda>object. cubeBox"]
      bounding_box_snapshot
      [of "exampleEnv OnError (OnLoad exampleLibrary) (OnLoad cubeObject)"
          "Texture 0" exampleLibrary cubeObject cubeBox 2 "\<lambda>object. cubeBox"]
    by (simp add: exampleEnv_def size center pos)
qed

text \<open>
  C7 as stated fails: the texture fails, the material library and the geometry load.
  The load succeeds and reports the extents of the box, 2 by 2 by 2, or 4 by 6 by 8 for
  another box, but the camera stays at \<open>(0, 2, 5)\<close> either way: its distance is not
  taken from the box.
\<close>

theorem camera_independent_of_box_without_texture:
  "map_option dimensions (modelMetadata
       (run (exampleEnv OnError (OnLoad exampleLibrary) (OnLoad cubeObject))))
     = Some \<lparr>width = 2, height = 2, depth = 2\<rparr>
   \<and> map_option camPosition (camera
       (run (exampleEnv OnError (OnLoad exampleLibrary) (OnLoad cubeObject))))
     = Some (Vector3 0 2 5)
   \<and> map_option dimensions (modelMetadata
       (run ((exampleEnv OnError (OnLoad exampleLibrary) (OnLoad cubeObject))
          \<lparr>setFromObject := (\<lambda>object. Box3 (Vector3 0 0 0) (Vector3 4 6 8))\<rparr>)))
     = Some \<lparr>width = 4, height = 6, depth = 8\<rparr>
   \<and> map_option camPosition (camera
       (run ((exampleEnv OnError (OnLoad exampleLibrary) (OnLoad cubeObject))
          \<lparr>setFromObject := (\<lambda>object. Box3 (Vector3 0 0 0) (Vector3 4 6 8))\<rparr>)))
     = Some (Vector3 0 2 5)"
  by (simp add: eval_defs example_defs PerspectiveCamera_def updateProjectionMatrix_def)

end
